theory Spec2Isabelle
  imports Main "HOL-Library.Multiset"
begin

section \<open>Python values, exceptions and text\<close>

text \<open>
  The alert engine lives in \<^verbatim>\<open>src/pages/alerts.py\<close>. Cells fetched from the database
  and the fields of an alert dictionary are dynamically typed in the source; they are
  values of \<open>val\<close> here, so that an operation applied to a cell of the wrong kind raises
  in the model exactly where Python raises. A date is its proleptic Gregorian ordinal
  (\<^verbatim>\<open>date.toordinal()\<close>). A \<open>char\<close> stands for a code point below 256; text with
  other code points is outside the model.
\<close>

datatype exn = TypeError | ValueError | OverflowError | UndefinedTable

datatype val = PyNone | PyInt int | PyStr string | PyDate int

definition digit_char :: "nat \<Rightarrow> char" where
  "digit_char d = char_of (48 + d)"

fun str_nat :: "nat \<Rightarrow> string" where
  "str_nat n = (if n < 10 then [digit_char n] else str_nat (n div 10) @ [digit_char (n mod 10)])"

declare str_nat.simps [simp del]

definition str_int :: "int \<Rightarrow> string" where
  \<comment> \<open>\<^verbatim>\<open>str(i)\<close>, the text an f-string puts for an int\<close>
  "str_int i = (if i < 0 then CHR ''-'' # str_nat (nat (- i)) else str_nat (nat i))"

definition zfill :: "nat \<Rightarrow> string \<Rightarrow> string" where
  "zfill w s = replicate (w - length s) CHR ''0'' @ s"

definition days_before_month :: "int list" where
  "days_before_month = [0, 0, 31, 59, 90, 120, 151, 181, 212, 243, 273, 304, 334]"

definition days_in_month :: "int list" where
  "days_in_month = [0, 31, 28, 31, 30, 31, 30, 31, 31, 30, 31, 30, 31]"

definition ord2ymd :: "int \<Rightarrow> int \<times> int \<times> int" where
  \<comment> \<open>year, month and day of an ordinal, as the standard library's \<^verbatim>\<open>_ord2ymd\<close> computes them\<close>
  "ord2ymd ordinal =
     (let n = ordinal - 1;
          n400 = n div 146097; n = n mod 146097;
          n100 = n div 36524; n = n mod 36524;
          n4 = n div 1461; n = n mod 1461;
          n1 = n div 365; n = n mod 365;
          year = n400 * 400 + 1 + n100 * 100 + n4 * 4 + n1
      in if n1 = 4 \<or> n100 = 4 then (year - 1, 12, 31)
         else
           let leapyear = (n1 = 3 \<and> (n4 \<noteq> 24 \<or> n100 = 3));
               month = (n + 50) div 32;
               preceding = days_before_month ! nat month + (if month > 2 \<and> leapyear then 1 else 0)
           in if preceding > n
              then let month = month - 1;
                       preceding = preceding - (days_in_month ! nat month
                                     + (if month = 2 \<and> leapyear then 1 else 0))
                   in (year, month, n - preceding + 1)
              else (year, month, n - preceding + 1))"

definition isoformat :: "int \<Rightarrow> string" where
  \<comment> \<open>\<^verbatim>\<open>str(d)\<close> of a date: YYYY-MM-DD\<close>
  "isoformat d = (case ord2ymd d of (y, m, dd) \<Rightarrow>
     zfill 4 (str_int y) @ ''-'' @ zfill 2 (str_int m) @ ''-'' @ zfill 2 (str_int dd))"

fun py_str :: "val \<Rightarrow> string" where
  \<comment> \<open>what an f-string substitutes for \<^verbatim>\<open>{x}\<close>\<close>
  "py_str PyNone = ''None''"
| "py_str (PyInt i) = str_int i"
| "py_str (PyStr s) = s"
| "py_str (PyDate d) = isoformat d"

fun py_date_sub :: "val \<Rightarrow> val \<Rightarrow> exn + int" where
  \<comment> \<open>\<^verbatim>\<open>(a - b).days\<close>: defined between two dates, a TypeError between a date and
      anything else the model's cells can hold\<close>
  "py_date_sub (PyDate a) (PyDate b) = Inr (a - b)"
| "py_date_sub _ _ = Inl TypeError"

definition date_plus_days :: "int \<Rightarrow> int \<Rightarrow> exn + int" where
  \<comment> \<open>\<^verbatim>\<open>d + timedelta(days=n)\<close>: \<^verbatim>\<open>timedelta\<close> refuses more than 999999999 days, and the
      sum must be a date between 0001-01-01 and 9999-12-31\<close>
  "date_plus_days d n =
     (if \<bar>n\<bar> > 999999999 then Inl OverflowError
      else if d + n < 1 \<or> d + n > 3652059 then Inl OverflowError
      else Inr (d + n))"

definition replace_space :: "string \<Rightarrow> string" where
  \<comment> \<open>\<^verbatim>\<open>s.replace(' ', '_')\<close>\<close>
  "replace_space s = map (\<lambda>c. if c = CHR '' '' then CHR ''_'' else c) s"

definition split_first :: "string \<Rightarrow> string \<times> string" where
  \<comment> \<open>\<^verbatim>\<open>s.split('_', 1)\<close> for an \<open>s\<close> that contains an underscore\<close>
  "split_first s = (takeWhile (\<lambda>c. c \<noteq> CHR ''_'') s, tl (dropWhile (\<lambda>c. c \<noteq> CHR ''_'') s))"

definition isdigit_char :: "char \<Rightarrow> bool" where
  \<comment> \<open>the code points below 256 that \<^verbatim>\<open>str.isdigit\<close> accepts: 0-9 and the superscripts
      two, three and one\<close>
  "isdigit_char c = (let n = (of_char c :: nat) in (48 \<le> n \<and> n \<le> 57) \<or> n = 178 \<or> n = 179 \<or> n = 185)"

definition isdigit :: "string \<Rightarrow> bool" where
  "isdigit s = (s \<noteq> [] \<and> list_all isdigit_char s)"

definition ascii_digit :: "char \<Rightarrow> bool" where
  "ascii_digit c = (let n = (of_char c :: nat) in 48 \<le> n \<and> n \<le> 57)"

definition decimal_value :: "string \<Rightarrow> int" where
  \<comment> \<open>the number that a text of the digits 0-9 writes\<close>
  "decimal_value s = foldl (\<lambda>acc c. 10 * acc + (int (of_char c) - 48)) 0 s"

definition int_max_str_digits :: nat where
  \<comment> \<open>the interpreter's default limit on the length of a decimal text that \<^verbatim>\<open>int()\<close>
      converts\<close>
  "int_max_str_digits = 4300"

definition int_of_digits :: "string \<Rightarrow> exn + int" where
  \<comment> \<open>\<^verbatim>\<open>int(s)\<close> for an \<open>s\<close> that passed \<^verbatim>\<open>isdigit()\<close>: the decimal value, or a
      ValueError when a superscript digit is among the characters or when the text is
      longer than the limit\<close>
  "int_of_digits s =
     (if s \<noteq> [] \<and> list_all ascii_digit s \<and> length s \<le> int_max_str_digits
      then Inr (decimal_value s)
      else Inl ValueError)"

section \<open>The stores\<close>

text \<open>
  A row of the \<^verbatim>\<open>inventory\<close> table, with the columns the engine reads
  (\<^verbatim>\<open>init_database\<close> in \<^verbatim>\<open>src/database.py\<close>) and the column \<^verbatim>\<open>updated_by\<close> that the
  audit trigger reads: \<^verbatim>\<open>id\<close>, \<^verbatim>\<open>patient_name\<close> and \<^verbatim>\<open>drug_item_name\<close> are NOT NULL, the
  others may be NULL (\<open>None\<close>).

  Modelled from the spec: the column \<^verbatim>\<open>acknowledged_alerts\<close>, which every query of the
  engine names but \<^verbatim>\<open>init_database\<close> does not create: "mapping from alert-class key
  (string) to acknowledgment timestamp (string); starts empty/absent". It is a JSONB
  object or NULL.
\<close>

record inventory_row =
  row_id :: int
  row_patient_name :: string
  drug_item_name :: string
  expiration_date :: "int option"
  row_inventory_number :: "string option"
  row_location :: "string option"
  row_updated_by :: "string option"
  acknowledged_alerts :: "(string \<rightharpoonup> string) option"

text \<open>
  The settings dictionary: a key may be absent (\<^verbatim>\<open>save_alert_settings\<close> is given a
  dictionary without the two notification keys when e-mail is off), and every read is a
  \<^verbatim>\<open>settings.get(key, default)\<close>.
\<close>

record alert_settings =
  expiry_warning_days :: "int option"
  expiry_critical_days :: "int option"
  low_stock_threshold :: "int option"
  enable_stock_alerts :: "bool option"
  enable_email_notifications :: "bool option"
  notification_recipients :: "string option"
  notification_frequency :: "string option"

record settings_row =
  settings :: alert_settings
  updated_by :: string
  updated_at :: int

text \<open>
  A row of \<^verbatim>\<open>audit_log\<close>, as \<^verbatim>\<open>audit_trigger_func\<close> inserts it (\<^verbatim>\<open>src/database.py\<close>,
  lines 91-113); \<^verbatim>\<open>old_values\<close> and \<^verbatim>\<open>new_values\<close> are the row images that
  \<^verbatim>\<open>row_to_json\<close> stores, here with the columns of \<open>inventory_row\<close>. The serial \<^verbatim>\<open>id\<close>
  and the \<^verbatim>\<open>changed_at\<close> default, which the server generates, are left out.
\<close>

record audit_row =
  table_name :: string
  audit_record_id :: int
  action :: string
  old_values :: "inventory_row option"
  new_values :: "inventory_row option"
  changed_by :: string

text \<open>
  The database: the inventory rows; the \<^verbatim>\<open>alert_settings\<close> table, which exists only once
  somebody has created it (\<open>None\<close>: no such table); the rows of \<^verbatim>\<open>audit_log\<close>; and
  whether \<^verbatim>\<open>inventory_audit_trigger\<close> is installed (\<^verbatim>\<open>init_database\<close> creates it and
  goes on when the creation fails).

  The list \<open>inventory\<close> enumerates the rows in an order of the model's own. PostgreSQL
  returns the rows of a SELECT without ORDER BY in an order it chooses, and an UPDATE can
  change that order; so where the results of queries before and after an UPDATE, or the
  tables left by two different runs, are compared, the comparison is of multisets.
\<close>

record db =
  inventory :: "inventory_row list"
  alert_settings_table :: "settings_row list option"
  audit_log :: "audit_row list"
  audit_trigger :: bool

text \<open>
  A psycopg2 connection runs one transaction: statements act on a working copy, a commit
  publishes it, and closing the connection drops whatever was not committed.
\<close>

record connection =
  committed :: db
  working :: db

definition connect :: "db \<Rightarrow> connection" where
  "connect d = \<lparr>committed = d, working = d\<rparr>"

definition commit :: "connection \<Rightarrow> connection" where
  "commit conn = conn\<lparr>committed := working conn\<rparr>"

definition rollback :: "connection \<Rightarrow> connection" where
  "rollback conn = conn\<lparr>working := committed conn\<rparr>"

definition close :: "connection \<Rightarrow> db" where
  \<comment> \<open>the database once the connection is gone\<close>
  "close conn = committed conn"

subsection \<open>SQL conditions\<close>

text \<open>A comparison with NULL is unknown (\<open>None\<close>), and WHERE keeps a row only when its
  condition is true.\<close>

definition sql_lt :: "int option \<Rightarrow> int option \<Rightarrow> bool option" where
  "sql_lt a b = (case a of None \<Rightarrow> None | Some x \<Rightarrow> (case b of None \<Rightarrow> None | Some y \<Rightarrow> Some (x < y)))"

definition sql_le :: "int option \<Rightarrow> int option \<Rightarrow> bool option" where
  "sql_le a b = (case a of None \<Rightarrow> None | Some x \<Rightarrow> (case b of None \<Rightarrow> None | Some y \<Rightarrow> Some (x \<le> y)))"

definition sql_gt :: "int option \<Rightarrow> int option \<Rightarrow> bool option" where
  "sql_gt a b = sql_lt b a"

definition sql_ge :: "int option \<Rightarrow> int option \<Rightarrow> bool option" where
  "sql_ge a b = sql_le b a"

fun sql_and :: "bool option \<Rightarrow> bool option \<Rightarrow> bool option" where
  "sql_and (Some False) _ = Some False"
| "sql_and _ (Some False) = Some False"
| "sql_and (Some True) (Some True) = Some True"
| "sql_and _ _ = None"

fun sql_or :: "bool option \<Rightarrow> bool option \<Rightarrow> bool option" where
  "sql_or (Some True) _ = Some True"
| "sql_or _ (Some True) = Some True"
| "sql_or (Some False) (Some False) = Some False"
| "sql_or _ _ = None"

fun sql_not :: "bool option \<Rightarrow> bool option" where
  "sql_not None = None"
| "sql_not (Some b) = Some (\<not> b)"

definition is_null :: "'a option \<Rightarrow> bool option" where
  "is_null x = Some (x = None)"

definition jsonb_exists :: "(string \<rightharpoonup> string) option \<Rightarrow> string \<Rightarrow> bool option" where
  \<comment> \<open>the operator \<^verbatim>\<open>?\<close>: is the text a key of the object\<close>
  "jsonb_exists j k = (case j of None \<Rightarrow> None | Some m \<Rightarrow> Some (m k \<noteq> None))"

definition sql_where :: "bool option \<Rightarrow> bool" where
  "sql_where c = (c = Some True)"

definition not_acknowledged :: "string \<Rightarrow> inventory_row \<Rightarrow> bool option" where
  \<comment> \<open>\<^verbatim>\<open>(acknowledged_alerts IS NULL OR NOT (acknowledged_alerts ? key))\<close>\<close>
  "not_acknowledged k r =
     sql_or (is_null (acknowledged_alerts r)) (sql_not (jsonb_exists (acknowledged_alerts r) k))"

definition date_val :: "int option \<Rightarrow> val" where
  "date_val x = (case x of None \<Rightarrow> PyNone | Some d \<Rightarrow> PyDate d)"

definition str_val :: "string option \<Rightarrow> val" where
  "str_val x = (case x of None \<Rightarrow> PyNone | Some s \<Rightarrow> PyStr s)"

definition select_item :: "inventory_row \<Rightarrow> val list" where
  \<comment> \<open>\<^verbatim>\<open>SELECT id, patient_name, drug_item_name, expiration_date, inventory_number, location\<close>:
      the tuple \<^verbatim>\<open>item\<close>, read by \<^verbatim>\<open>item[k]\<close>\<close>
  "select_item r =
     [PyInt (row_id r), PyStr (row_patient_name r), PyStr (drug_item_name r),
      date_val (expiration_date r), str_val (row_inventory_number r), str_val (row_location r)]"

section \<open>Alerts\<close>

text \<open>
  An alert is the dictionary the checks build. Its key \<^verbatim>\<open>id\<close> is the field \<open>alert_id\<close>;
  \<^verbatim>\<open>days_until_expiry\<close> is present on expiry alerts only and \<^verbatim>\<open>stock_count\<close> on stock
  alerts only (\<open>None\<close>: no such key). The key \<^verbatim>\<open>created_at\<close>, a clock reading that
  nothing in the engine reads back, is left out.
\<close>

record alert =
  alert_id :: string
  record_id :: val
  alert_type :: string
  severity :: string
  patient_name :: val
  item_name :: val
  expiry_date :: val
  inventory_number :: val
  location :: val
  message :: string
  days_until_expiry :: "int option"
  stock_count :: "int option"

definition get_default_alert_settings :: alert_settings where
  "get_default_alert_settings =
     \<lparr>expiry_warning_days = Some 30, expiry_critical_days = Some 7, low_stock_threshold = Some 5,
      enable_stock_alerts = Some True, enable_email_notifications = Some False,
      notification_recipients = Some [], notification_frequency = Some ''Daily''\<rparr>"

definition dict_get :: "'a option \<Rightarrow> 'a \<Rightarrow> 'a" where
  \<comment> \<open>\<^verbatim>\<open>settings.get(key, default)\<close>\<close>
  "dict_get x dflt = (case x of None \<Rightarrow> dflt | Some v \<Rightarrow> v)"

subsection \<open>\<^verbatim>\<open>check_expiry_alerts\<close>\<close>

definition expired_alert :: "int \<Rightarrow> val list \<Rightarrow> exn + alert" where
  \<comment> \<open>the body of the loop over \<^verbatim>\<open>expired_items\<close> (lines 176-191); \<^verbatim>\<open>item[2]\<close> is the
      cell the source subtracts from today's date\<close>
  "expired_alert today item =
     (case py_date_sub (PyDate today) (item ! 2) of
        Inl e \<Rightarrow> Inl e
      | Inr days_expired \<Rightarrow>
          Inr \<lparr>alert_id = ''expired_'' @ py_str (item ! 0),
               record_id = item ! 0,
               alert_type = ''Expired'',
               severity = ''Critical'',
               patient_name = item ! 1,
               item_name = item ! 2,
               expiry_date = item ! 2,
               inventory_number = item ! 3,
               location = item ! 4,
               message = ''Item expired '' @ str_int days_expired @ '' days ago'',
               days_until_expiry = Some (- days_expired),
               stock_count = None\<rparr>)"

definition expiring_alert :: "string \<Rightarrow> string \<Rightarrow> int \<Rightarrow> val list \<Rightarrow> exn + alert" where
  \<comment> \<open>the body of the loops over \<^verbatim>\<open>critical_expiry\<close> (lines 203-218, tier
      \<^verbatim>\<open>expiring_critical\<close>, severity Critical) and over \<^verbatim>\<open>warning_expiry\<close> (lines 230-245,
      tier \<^verbatim>\<open>expiring_warning\<close>, severity Warning), which differ in these two texts only\<close>
  "expiring_alert tier sev today item =
     (case py_date_sub (item ! 3) (PyDate today) of
        Inl e \<Rightarrow> Inl e
      | Inr days_left \<Rightarrow>
          Inr \<lparr>alert_id = tier @ ''_'' @ py_str (item ! 0),
               record_id = item ! 0,
               alert_type = ''Expiring Soon'',
               severity = sev,
               patient_name = item ! 1,
               item_name = item ! 2,
               expiry_date = item ! 3,
               inventory_number = item ! 4,
               location = item ! 5,
               message = ''Expires in '' @ str_int days_left @ '' days'',
               days_until_expiry = Some days_left,
               stock_count = None\<rparr>)"

fun append_alerts :: "(val list \<Rightarrow> exn + alert) \<Rightarrow> val list list \<Rightarrow> alert list \<Rightarrow> exn + alert list" where
  \<comment> \<open>\<^verbatim>\<open>for item in items: alerts.append(...)\<close>; an exception leaves the loop\<close>
  "append_alerts mk [] alerts = Inr alerts"
| "append_alerts mk (item # items) alerts =
     (case mk item of Inl e \<Rightarrow> Inl e | Inr a \<Rightarrow> append_alerts mk items (alerts @ [a]))"

definition expired_items :: "int \<Rightarrow> inventory_row list \<Rightarrow> val list list" where
  "expired_items today tbl =
     map select_item (filter (\<lambda>r. sql_where (sql_and (sql_lt (expiration_date r) (Some today))
                                                 (not_acknowledged ''expired'' r))) tbl)"

definition critical_expiry :: "int \<Rightarrow> int \<Rightarrow> inventory_row list \<Rightarrow> val list list" where
  "critical_expiry today critical_date tbl =
     map select_item (filter (\<lambda>r. sql_where (sql_and (sql_and (sql_le (expiration_date r) (Some critical_date))
                                                          (sql_ge (expiration_date r) (Some today)))
                                                 (not_acknowledged ''expiring_critical'' r))) tbl)"

definition warning_expiry :: "int \<Rightarrow> int \<Rightarrow> inventory_row list \<Rightarrow> val list list" where
  "warning_expiry warning_date critical_date tbl =
     map select_item (filter (\<lambda>r. sql_where (sql_and (sql_and (sql_le (expiration_date r) (Some warning_date))
                                                          (sql_gt (expiration_date r) (Some critical_date)))
                                                 (not_acknowledged ''expiring_warning'' r))) tbl)"

definition expiry_alerts_try :: "int \<Rightarrow> inventory_row list \<Rightarrow> alert_settings \<Rightarrow> exn + alert list" where
  \<comment> \<open>the \<^verbatim>\<open>try\<close> block of \<^verbatim>\<open>check_expiry_alerts\<close>\<close>
  "expiry_alerts_try today tbl s =
     (let warning_days = dict_get (expiry_warning_days s) 30;
          critical_days = dict_get (expiry_critical_days s) 7
      in (case date_plus_days today warning_days of
            Inl e \<Rightarrow> Inl e
          | Inr warning_date \<Rightarrow>
         (case date_plus_days today critical_days of
            Inl e \<Rightarrow> Inl e
          | Inr critical_date \<Rightarrow>
         (case append_alerts (expired_alert today) (expired_items today tbl) [] of
            Inl e \<Rightarrow> Inl e
          | Inr alerts \<Rightarrow>
         (case append_alerts (expiring_alert ''expiring_critical'' ''Critical'' today)
                 (critical_expiry today critical_date tbl) alerts of
            Inl e \<Rightarrow> Inl e
          | Inr alerts \<Rightarrow>
              append_alerts (expiring_alert ''expiring_warning'' ''Warning'' today)
                (warning_expiry warning_date critical_date tbl) alerts)))))"

definition check_expiry_alerts :: "int \<Rightarrow> inventory_row list \<Rightarrow> alert_settings \<Rightarrow> alert list" where
  \<comment> \<open>\<^verbatim>\<open>except Exception\<close>: the error is shown and the empty list returned\<close>
  "check_expiry_alerts today tbl s =
     (case expiry_alerts_try today tbl s of Inl e \<Rightarrow> [] | Inr alerts \<Rightarrow> alerts)"

subsection \<open>\<^verbatim>\<open>check_stock_alerts\<close>\<close>

definition stock_groups :: "int \<Rightarrow> inventory_row list \<Rightarrow> (string \<times> string option \<times> int) list" where
  \<comment> \<open>\<^verbatim>\<open>SELECT drug_item_name, location, COUNT(*) ... WHERE expiration_date >= CURRENT_DATE
      GROUP BY drug_item_name, location\<close>: one row for each pair that occurs (NULL locations
      form one group); SQL leaves the order of the groups open\<close>
  "stock_groups today tbl =
     (let rows = filter (\<lambda>r. sql_where (sql_ge (expiration_date r) (Some today))) tbl;
          keys = remdups (map (\<lambda>r. (drug_item_name r, row_location r)) rows)
      in map (\<lambda>k. (fst k, snd k,
                   int (length (filter (\<lambda>r. (drug_item_name r, row_location r) = k) rows)))) keys)"

definition low_stock_items :: "int \<Rightarrow> int \<Rightarrow> inventory_row list \<Rightarrow> (string \<times> string option \<times> int) list" where
  \<comment> \<open>\<^verbatim>\<open>HAVING COUNT(*) <= %s\<close>\<close>
  "low_stock_items today threshold tbl =
     filter (\<lambda>(drug_name, loc, cnt). cnt \<le> threshold) (stock_groups today tbl)"

definition stock_alert :: "string \<times> string option \<times> int \<Rightarrow> alert" where
  "stock_alert item = (case item of (drug_name, loc, cnt) \<Rightarrow>
     \<lparr>alert_id = replace_space (''stock_'' @ drug_name @ ''_'' @ py_str (str_val loc)),
      record_id = PyNone,
      alert_type = (if cnt = 0 then ''Out of Stock'' else ''Low Stock''),
      severity = (if cnt = 0 then ''Critical'' else if cnt \<le> 2 then ''Warning'' else ''Info''),
      patient_name = PyStr ''Multiple Patients'',
      item_name = PyStr drug_name,
      expiry_date = PyNone,
      inventory_number = PyStr ''Multiple'',
      location = str_val loc,
      message = (if cnt > 0 then ''Only '' @ str_int cnt @ '' items remaining''
                 else ''Out of stock''),
      days_until_expiry = None,
      stock_count = Some cnt\<rparr>)"

definition check_stock_alerts :: "int \<Rightarrow> inventory_row list \<Rightarrow> alert_settings \<Rightarrow> alert list" where
  "check_stock_alerts today tbl s =
     (let threshold = dict_get (low_stock_threshold s) 5
      in map stock_alert (low_stock_items today threshold tbl))"

subsection \<open>Settings\<close>

fun latest_settings :: "settings_row list \<Rightarrow> settings_row option" where
  \<comment> \<open>\<^verbatim>\<open>ORDER BY updated_at DESC LIMIT 1\<close>; among rows with the same time SQL may return
      any, and the model returns the one inserted last\<close>
  "latest_settings [] = None"
| "latest_settings (r # rs) =
     (case latest_settings rs of
        None \<Rightarrow> Some r
      | Some b \<Rightarrow> if updated_at r \<le> updated_at b then Some b else Some r)"

definition create_table_if_not_exists :: "connection \<Rightarrow> connection" where
  \<comment> \<open>\<^verbatim>\<open>CREATE TABLE IF NOT EXISTS alert_settings\<close>, inside the connection's transaction\<close>
  "create_table_if_not_exists conn =
     conn\<lparr>working := (working conn)\<lparr>alert_settings_table :=
        (case alert_settings_table (working conn) of None \<Rightarrow> Some [] | Some rows \<Rightarrow> Some rows)\<rparr>\<rparr>"

definition get_alert_settings :: "bool \<Rightarrow> db \<Rightarrow> alert_settings \<times> db" where
  \<comment> \<open>\<open>conn_ok\<close>: whether \<^verbatim>\<open>get_db_connection\<close> gave a connection. The function closes the
      connection without committing.\<close>
  "get_alert_settings conn_ok d =
     (if \<not> conn_ok then (get_default_alert_settings, d)
      else
        let conn = create_table_if_not_exists (connect d);
            result = latest_settings (case alert_settings_table (working conn) of
                                        None \<Rightarrow> [] | Some rows \<Rightarrow> rows)
        in (case result of
              Some row \<Rightarrow> (settings row, close conn)
            | None \<Rightarrow> (get_default_alert_settings, close conn)))"

definition execute_insert :: "settings_row \<Rightarrow> connection \<Rightarrow> exn + connection" where
  \<comment> \<open>\<^verbatim>\<open>INSERT INTO alert_settings (settings, updated_by) VALUES (...)\<close>: an error when the
      table does not exist\<close>
  "execute_insert row conn =
     (case alert_settings_table (working conn) of
        None \<Rightarrow> Inl UndefinedTable
      | Some rows \<Rightarrow> Inr (conn\<lparr>working := (working conn)\<lparr>alert_settings_table := Some (rows @ [row])\<rparr>\<rparr>))"

definition save_alert_settings :: "bool \<Rightarrow> string \<Rightarrow> int \<Rightarrow> alert_settings \<Rightarrow> db \<Rightarrow> bool \<times> db" where
  \<comment> \<open>\<open>username\<close> is \<^verbatim>\<open>st.session_state.username\<close> and \<open>now\<close> the CURRENT_TIMESTAMP default
      of \<^verbatim>\<open>updated_at\<close>\<close>
  "save_alert_settings conn_ok username now s d =
     (if \<not> conn_ok then (False, d)
      else
        let conn = connect d
        in (case execute_insert \<lparr>settings = s, updated_by = username, updated_at = now\<rparr> conn of
              Inr conn' \<Rightarrow> (True, close (commit conn'))
            | Inl e \<Rightarrow> (False, close (rollback conn))))"

subsection \<open>\<^verbatim>\<open>get_current_alerts\<close>\<close>

definition get_current_alerts :: "bool \<Rightarrow> bool \<Rightarrow> int \<Rightarrow> db \<Rightarrow> alert list \<times> db" where
  \<comment> \<open>\<open>conn_ok\<close>: the function's own connection; \<open>settings_conn_ok\<close>: the connection
      \<^verbatim>\<open>get_alert_settings\<close> opens; \<open>today\<close>: the date both \<^verbatim>\<open>datetime.now().date()\<close> and
      CURRENT_DATE give. The queries run after \<^verbatim>\<open>get_alert_settings\<close> has returned and read
      what is committed then (\<open>d'\<close>). The connection is closed without a commit.\<close>
  "get_current_alerts conn_ok settings_conn_ok today d =
     (if \<not> conn_ok then ([], d)
      else
        let conn = connect d;
            (s, d') = get_alert_settings settings_conn_ok d;
            conn = conn\<lparr>committed := d', working := d'\<rparr>;
            alerts = [];
            alerts = alerts @ check_expiry_alerts today (inventory (working conn)) s;
            alerts = alerts @ check_stock_alerts today (inventory (working conn)) s
        in (alerts, close conn))"

section \<open>Acknowledgment\<close>

definition coalesce_object :: "(string \<rightharpoonup> string) option \<Rightarrow> (string \<rightharpoonup> string)" where
  \<comment> \<open>\<^verbatim>\<open>COALESCE(acknowledged_alerts, '{}'::jsonb)\<close>\<close>
  "coalesce_object j = (case j of None \<Rightarrow> Map.empty | Some m \<Rightarrow> m)"

definition jsonb_concat :: "(string \<rightharpoonup> string) \<Rightarrow> (string \<rightharpoonup> string) \<Rightarrow> (string \<rightharpoonup> string)" where
  \<comment> \<open>the operator \<^verbatim>\<open>||\<close> on two objects: all keys of both, the right one's value where
      both have the key\<close>
  "jsonb_concat a b = a ++ b"

definition merge_acknowledgment :: "string \<Rightarrow> string \<Rightarrow> inventory_row \<Rightarrow> inventory_row" where
  \<comment> \<open>\<^verbatim>\<open>SET acknowledged_alerts = COALESCE(acknowledged_alerts, '{}'::jsonb) || {key: stamp}\<close>\<close>
  "merge_acknowledgment acknowledge_key stamp r =
     r\<lparr>acknowledged_alerts :=
         Some (jsonb_concat (coalesce_object (acknowledged_alerts r)) [acknowledge_key \<mapsto> stamp])\<rparr>"

definition update_rows :: "string \<Rightarrow> string \<Rightarrow> int \<Rightarrow> inventory_row list \<Rightarrow> inventory_row list" where
  \<comment> \<open>the rows of \<^verbatim>\<open>inventory\<close> after \<^verbatim>\<open>UPDATE inventory SET ... WHERE id = n\<close>\<close>
  "update_rows acknowledge_key stamp n tbl =
     map (\<lambda>r. if row_id r = n then merge_acknowledgment acknowledge_key stamp r else r) tbl"

definition audit_trigger_func :: "inventory_row \<Rightarrow> inventory_row \<Rightarrow> audit_row" where
  \<comment> \<open>the branch \<^verbatim>\<open>TG_OP = 'UPDATE'\<close> of the trigger function: the row it inserts into
      \<^verbatim>\<open>audit_log\<close> for the images OLD and NEW of an updated row\<close>
  "audit_trigger_func old new =
     \<lparr>table_name = ''inventory'',
      audit_record_id = row_id new,
      action = ''UPDATE'',
      old_values = Some old,
      new_values = Some new,
      changed_by = (case row_updated_by new of None \<Rightarrow> ''system'' | Some u \<Rightarrow> u)\<rparr>"

definition execute_update :: "string \<Rightarrow> string \<Rightarrow> int \<Rightarrow> db \<Rightarrow> db" where
  \<comment> \<open>the UPDATE of \<^verbatim>\<open>acknowledge_alerts\<close> on the transaction's working copy; when the
      audit trigger is installed it fires once for each updated row\<close>
  "execute_update acknowledge_key stamp n w =
     w\<lparr>inventory := update_rows acknowledge_key stamp n (inventory w),
       audit_log := audit_log w @
         (if audit_trigger w
          then map (\<lambda>r. audit_trigger_func r (merge_acknowledgment acknowledge_key stamp r))
                 (filter (\<lambda>r. row_id r = n) (inventory w))
          else [])\<rparr>"

fun acknowledge_loop :: "(nat \<Rightarrow> string) \<Rightarrow> nat \<Rightarrow> string list \<Rightarrow> db \<Rightarrow> exn + db" where
  \<comment> \<open>the loop over \<^verbatim>\<open>alert_ids\<close> (lines 632-643), on the working copy \<open>w\<close>. \<open>clock i\<close> is
      what \<^verbatim>\<open>datetime.now().isoformat()\<close> gives while the id at position \<open>i\<close> is handled; the
      primed names are the source's variables.\<close>
  "acknowledge_loop clock i [] w = Inr w"
| "acknowledge_loop clock i (alert_id' # rest) w =
     (if CHR ''_'' \<in> set alert_id' then
        (case split_first alert_id' of (alert_type', record_id') \<Rightarrow>
           if isdigit record_id' then
             (let acknowledge_key = alert_type' @ ''_acknowledged''
              in case int_of_digits record_id' of
                   Inl e \<Rightarrow> Inl e
                 | Inr n \<Rightarrow> acknowledge_loop clock (Suc i) rest
                              (execute_update acknowledge_key (clock i) n w))
           else acknowledge_loop clock (Suc i) rest w)
      else acknowledge_loop clock (Suc i) rest w)"

definition acknowledge_alerts :: "bool \<Rightarrow> (nat \<Rightarrow> string) \<Rightarrow> string list \<Rightarrow> db \<Rightarrow> bool \<times> db" where
  \<comment> \<open>commit and True after the loop; rollback and False when an exception left it\<close>
  "acknowledge_alerts conn_ok clock alert_ids d =
     (if \<not> conn_ok then (False, d)
      else
        let conn = connect d
        in (case acknowledge_loop clock 0 alert_ids (working conn) of
              Inr w \<Rightarrow> (True, close (commit (conn\<lparr>working := w\<rparr>)))
            | Inl e \<Rightarrow> (False, close (rollback conn))))"

section \<open>The alert summary\<close>

text \<open>
  The subject and the content that \<^verbatim>\<open>send_alert_summary_email\<close> builds (lines 669-701)
  before it hands them to \<^verbatim>\<open>send_email\<close>. \<open>now_text\<close> is what
  \<^verbatim>\<open>datetime.now().strftime('%Y-%m-%d %H:%M:%S')\<close> gives.
\<close>

definition newline :: string where
  "newline = [CHR 0x0A]"

definition indent :: string where
  \<comment> \<open>the twelve blanks that open each line of the triple-quoted template\<close>
  "indent = replicate 12 CHR '' ''"

definition alert_line :: "alert \<Rightarrow> string" where
  "alert_line a =
     ''- '' @ alert_type a @ '': '' @ py_str (item_name a) @ '' ('' @ py_str (patient_name a)
       @ '') - '' @ message a @ newline"

fun append_lines :: "alert list \<Rightarrow> string \<Rightarrow> string" where
  \<comment> \<open>\<^verbatim>\<open>for alert in xs: content += line\<close>\<close>
  "append_lines [] content = content"
| "append_lines (a # rest) content = append_lines rest (content @ alert_line a)"

definition summary_subject :: "alert list \<Rightarrow> string" where
  "summary_subject alerts =
     ''Inventory Alert Summary - '' @ str_int (int (length alerts)) @ '' Active Alerts''"

definition summary_header :: "string \<Rightarrow> nat \<Rightarrow> nat \<Rightarrow> nat \<Rightarrow> string" where
  "summary_header now_text n_total n_critical n_warning =
     newline @ indent @ ''Inventory Alert Summary - '' @ now_text @ newline
     @ indent @ newline
     @ indent @ ''Total Active Alerts: '' @ str_int (int n_total) @ newline
     @ indent @ ''- Critical: '' @ str_int (int n_critical) @ newline
     @ indent @ ''- Warnings: '' @ str_int (int n_warning) @ newline
     @ indent @ newline
     @ indent @ ''Critical Alerts:'' @ newline
     @ indent"

definition critical_alerts :: "alert list \<Rightarrow> alert list" where
  \<comment> \<open>\<^verbatim>\<open>[a for a in alerts if a['severity'] == 'Critical']\<close>\<close>
  "critical_alerts alerts = filter (\<lambda>a. severity a = ''Critical'') alerts"

definition warning_alerts :: "alert list \<Rightarrow> alert list" where
  \<comment> \<open>\<^verbatim>\<open>[a for a in alerts if a['severity'] == 'Warning']\<close>\<close>
  "warning_alerts alerts = filter (\<lambda>a. severity a = ''Warning'') alerts"

definition summary_content :: "string \<Rightarrow> alert list \<Rightarrow> string" where
  "summary_content now_text alerts =
     (if alerts = [] then ''Good news! There are currently no active inventory alerts.''
      else
        let content = summary_header now_text (length alerts) (length (critical_alerts alerts))
                        (length (warning_alerts alerts));
            content = append_lines (take 10 (critical_alerts alerts)) content;
            content = (if length (critical_alerts alerts) > 10
                       then content @ ''... and '' @ str_int (int (length (critical_alerts alerts)) - 10)
                              @ '' more critical alerts'' @ newline
                       else content);
            content = content @ newline @ ''Warning Alerts:'' @ newline;
            content = append_lines (take 10 (warning_alerts alerts)) content;
            content = (if length (warning_alerts alerts) > 10
                       then content @ ''... and '' @ str_int (int (length (warning_alerts alerts)) - 10)
                              @ '' more warnings'' @ newline
                       else content)
        in content @ newline @ ''Please review the inventory system for detailed information.'')"

definition more_marker :: "alert list \<Rightarrow> string \<Rightarrow> string" where
  \<comment> \<open>the truncation marker for a group: nothing up to ten items, and beyond ten the
      number of items left out (used to state the summary's shape)\<close>
  "more_marker xs what =
     (if length xs > 10
      then ''... and '' @ str_int (int (length (drop 10 xs))) @ what @ newline
      else [])"

section \<open>Sequences of engine operations\<close>

datatype engine_op =
    Evaluate bool bool int
  | Acknowledge bool "nat \<Rightarrow> string" "string list"
  | GetSettings bool
  | SaveSettings bool string int alert_settings

fun apply_op :: "engine_op \<Rightarrow> db \<Rightarrow> db" where
  "apply_op (Evaluate conn_ok settings_conn_ok today) d = snd (get_current_alerts conn_ok settings_conn_ok today d)"
| "apply_op (Acknowledge conn_ok clock alert_ids) d = snd (acknowledge_alerts conn_ok clock alert_ids d)"
| "apply_op (GetSettings conn_ok) d = snd (get_alert_settings conn_ok d)"
| "apply_op (SaveSettings conn_ok username now s) d = snd (save_alert_settings conn_ok username now s d)"

definition run_ops :: "engine_op list \<Rightarrow> db \<Rightarrow> db" where
  "run_ops ops d = fold apply_op ops d"

section \<open>Notions used to state the properties\<close>

definition ack_keys :: "inventory_row \<Rightarrow> string set" where
  \<comment> \<open>the keys of a row's \<^verbatim>\<open>acknowledged_alerts\<close>; NULL has none\<close>
  "ack_keys r = dom (coalesce_object (acknowledged_alerts r))"

definition keys_kept :: "inventory_row \<Rightarrow> inventory_row \<Rightarrow> bool" where
  \<comment> \<open>\<open>r'\<close> is the row \<open>r\<close> at a later time, with every acknowledgment key of \<open>r\<close>\<close>
  "keys_kept r r' = (row_id r' = row_id r \<and> ack_keys r \<subseteq> ack_keys r')"

datatype ack_effect = Skipped | Raised exn | Updated string int

definition single_effect :: "string \<Rightarrow> ack_effect" where
  \<comment> \<open>what one pass of the loop of \<^verbatim>\<open>acknowledge_alerts\<close> does with an alert id: nothing,
      an exception, or an UPDATE with a key and a record id\<close>
  "single_effect a =
     (if CHR ''_'' \<in> set a \<and> isdigit (snd (split_first a))
      then (case int_of_digits (snd (split_first a)) of
              Inl e \<Rightarrow> Raised e
            | Inr n \<Rightarrow> Updated (fst (split_first a) @ ''_acknowledged'') n)
      else Skipped)"

definition audited_updates :: "string \<Rightarrow> db \<Rightarrow> nat" where
  \<comment> \<open>the number of \<^verbatim>\<open>audit_log\<close> rows that acknowledging the one id \<open>a\<close> adds: one for
      each row the UPDATE touches, when the audit trigger is installed\<close>
  "audited_updates a d =
     (case single_effect a of
        Updated k n \<Rightarrow>
          if audit_trigger d then length (filter (\<lambda>r. row_id r = n) (inventory d)) else 0
      | _ \<Rightarrow> 0)"

definition same_selection :: "inventory_row \<Rightarrow> inventory_row \<Rightarrow> bool" where
  \<comment> \<open>\<open>r'\<close> is \<open>r\<close> but for its \<^verbatim>\<open>acknowledged_alerts\<close>, and the three tests the queries
      make on that column come out the same\<close>
  "same_selection r r' =
     (r'\<lparr>acknowledged_alerts := None\<rparr> = r\<lparr>acknowledged_alerts := None\<rparr>
      \<and> not_acknowledged ''expired'' r' = not_acknowledged ''expired'' r
      \<and> not_acknowledged ''expiring_critical'' r' = not_acknowledged ''expiring_critical'' r
      \<and> not_acknowledged ''expiring_warning'' r' = not_acknowledged ''expiring_warning'' r)"

definition expiring_row_alert :: "string \<Rightarrow> string \<Rightarrow> int \<Rightarrow> inventory_row \<Rightarrow> alert" where
  \<comment> \<open>the "Expiring Soon" alert of a row that has an expiration date, in terms of the row\<close>
  "expiring_row_alert tier sev today r =
     \<lparr>alert_id = tier @ ''_'' @ str_int (row_id r),
      record_id = PyInt (row_id r),
      alert_type = ''Expiring Soon'',
      severity = sev,
      patient_name = PyStr (row_patient_name r),
      item_name = PyStr (drug_item_name r),
      expiry_date = date_val (expiration_date r),
      inventory_number = str_val (row_inventory_number r),
      location = str_val (row_location r),
      message = ''Expires in '' @ str_int (dict_get (expiration_date r) today - today) @ '' days'',
      days_until_expiry = Some (dict_get (expiration_date r) today - today),
      stock_count = None\<rparr>"

definition in_critical_window :: "int \<Rightarrow> int \<Rightarrow> inventory_row \<Rightarrow> bool" where
  \<comment> \<open>the WHERE clause of the critical query\<close>
  "in_critical_window today critical_date r =
     sql_where (sql_and (sql_and (sql_le (expiration_date r) (Some critical_date))
                                 (sql_ge (expiration_date r) (Some today)))
                        (not_acknowledged ''expiring_critical'' r))"

definition in_warning_window :: "int \<Rightarrow> int \<Rightarrow> inventory_row \<Rightarrow> bool" where
  \<comment> \<open>the WHERE clause of the warning query\<close>
  "in_warning_window warning_date critical_date r =
     sql_where (sql_and (sql_and (sql_le (expiration_date r) (Some warning_date))
                                 (sql_gt (expiration_date r) (Some critical_date)))
                        (not_acknowledged ''expiring_warning'' r))"

definition dated_rows :: "inventory_row list \<Rightarrow> inventory_row list" where
  \<comment> \<open>the rows that have an expiration date\<close>
  "dated_rows tbl = filter (\<lambda>r. expiration_date r \<noteq> None) tbl"

section \<open>Example data\<close>

text \<open>The ordinal 739038 is 2024-06-01.\<close>

definition row_expired :: inventory_row where
  \<comment> \<open>expired on 2024-05-31, never acknowledged\<close>
  "row_expired = \<lparr>row_id = 7, row_patient_name = ''Ann Lee'', drug_item_name = ''DrugA'',
     expiration_date = Some 739037, row_inventory_number = Some ''INV-7'',
     row_location = Some ''Loc X'', row_updated_by = Some ''clerk'',
     acknowledged_alerts = None\<rparr>"

definition row_critical :: inventory_row where
  \<comment> \<open>expires on 2024-06-05, four days out\<close>
  "row_critical = \<lparr>row_id = 8, row_patient_name = ''Bo Chen'', drug_item_name = ''DrugB'',
     expiration_date = Some 739042, row_inventory_number = Some ''INV-8'',
     row_location = Some ''Loc Y'', row_updated_by = Some ''clerk'',
     acknowledged_alerts = None\<rparr>"

definition row_warning :: inventory_row where
  \<comment> \<open>expires on 2024-06-20, nineteen days out\<close>
  "row_warning = \<lparr>row_id = 42, row_patient_name = ''Cy Dunn'', drug_item_name = ''DrugC'',
     expiration_date = Some 739057, row_inventory_number = Some ''INV-42'',
     row_location = None, row_updated_by = None, acknowledged_alerts = None\<rparr>"

definition db_example :: db where
  \<comment> \<open>the three rows, and no settings table: the defaults (30, 7, 5) apply\<close>
  "db_example = \<lparr>inventory = [row_expired, row_critical, row_warning], alert_settings_table = None,
                        audit_log = [], audit_trigger = True\<rparr>"

definition settings_stock_off :: settings_row where
  \<comment> \<open>a saved settings row with the stock alerts switched off\<close>
  "settings_stock_off =
     \<lparr>settings = \<lparr>expiry_warning_days = Some 30, expiry_critical_days = Some 7,
                   low_stock_threshold = Some 5, enable_stock_alerts = Some False,
                   enable_email_notifications = Some False,
                   notification_recipients = None, notification_frequency = None\<rparr>,
      updated_by = ''admin'', updated_at = 1717232400\<rparr>"

definition alerts_example :: "alert list" where
  \<comment> \<open>eleven Critical alerts for record 8 and one Warning alert for record 42, as the
      evaluation of 2024-06-01 builds them\<close>
  "alerts_example =
     replicate 11 (expiring_row_alert ''expiring_critical'' ''Critical'' 739038 row_critical)
     @ [expiring_row_alert ''expiring_warning'' ''Warning'' 739038 row_warning]"

definition alerts_example_other :: "alert list" where
  \<comment> \<open>as \<open>alerts_example\<close>, but the eleventh Critical alert is an "Out of Stock" alert\<close>
  "alerts_example_other =
     replicate 10 (expiring_row_alert ''expiring_critical'' ''Critical'' 739038 row_critical)
     @ [stock_alert (''DrugA'', Some ''Loc X'', 0)]
     @ [expiring_row_alert ''expiring_warning'' ''Warning'' 739038 row_warning]"

definition stamp1 :: string where
  "stamp1 = ''2024-06-01T09:00:00.000001''"

definition stamp2 :: string where
  "stamp2 = ''2024-06-01T09:00:05.250000''"

section \<open>Properties\<close>

subsection \<open>SQL conditions\<close>

lemma sql_and_True: "(sql_and a b = Some True) = (a = Some True \<and> b = Some True)"
  by (cases "(a, b)" rule: sql_and.cases) auto

lemma sql_or_True: "(sql_or a b = Some True) = (a = Some True \<or> b = Some True)"
  by (cases "(a, b)" rule: sql_or.cases) auto

lemma sql_lt_True: "(sql_lt a b = Some True) = (\<exists>x y. a = Some x \<and> b = Some y \<and> x < y)"
  by (auto simp: sql_lt_def split: option.splits)

lemma sql_le_True: "(sql_le a b = Some True) = (\<exists>x y. a = Some x \<and> b = Some y \<and> x \<le> y)"
  by (auto simp: sql_le_def split: option.splits)

lemma null_expiry_not_expired:
  "sql_where (sql_and (sql_lt (expiration_date r) (Some today)) c) \<Longrightarrow> expiration_date r \<noteq> None"
  by (auto simp: sql_where_def sql_and_True sql_lt_True)

lemma null_expiry_not_expiring:
  "sql_where (sql_and (sql_and (sql_le (expiration_date r) (Some x)) c1) c2) \<Longrightarrow> expiration_date r \<noteq> None"
  by (auto simp: sql_where_def sql_and_True sql_le_True)

lemma null_expiry_not_counted:
  "sql_where (sql_ge (expiration_date r) (Some today)) \<Longrightarrow> expiration_date r \<noteq> None"
  by (auto simp: sql_where_def sql_ge_def sql_le_True)

lemma filter_filter_absorb: "(\<And>x. Q x \<Longrightarrow> P x) \<Longrightarrow> filter Q (filter P xs) = filter Q xs"
  by (induction xs) auto

subsection \<open>Reading the settings and evaluating leave the stores alone\<close>

lemma get_alert_settings_db: "snd (get_alert_settings conn_ok d) = d"
  by (simp add: get_alert_settings_def connect_def create_table_if_not_exists_def close_def Let_def
           split: option.splits)

lemma get_alert_settings_inventory:
  "fst (get_alert_settings conn_ok (d\<lparr>inventory := tbl\<rparr>)) = fst (get_alert_settings conn_ok d)"
  by (simp add: get_alert_settings_def connect_def create_table_if_not_exists_def close_def Let_def
           split: option.splits)

lemma get_current_alerts_db: "snd (get_current_alerts conn_ok settings_conn_ok today d) = d"
proof -
  obtain s d' where g: "get_alert_settings settings_conn_ok d = (s, d')"
    by (cases "get_alert_settings settings_conn_ok d")
  with get_alert_settings_db [of settings_conn_ok d] have "d' = d" by simp
  with g show ?thesis
    by (simp add: get_current_alerts_def connect_def close_def Let_def)
qed

text \<open>
  C8. \<^verbatim>\<open>get_current_alerts\<close> is read-only: whatever the two stores hold and whether or
  not the connections open, the database after the call, and after the read of the
  settings inside it, is the database before it. The \<^verbatim>\<open>CREATE TABLE IF NOT EXISTS\<close> that
  \<^verbatim>\<open>get_alert_settings\<close> runs stays inside a transaction that is never committed.
\<close>

theorem evaluate_alerts_read_only:
  "snd (get_current_alerts conn_ok settings_conn_ok today d) = d
   \<and> snd (get_alert_settings settings_conn_ok d) = d"
  by (simp add: get_current_alerts_db get_alert_settings_db)

subsection \<open>Rows without an expiration date\<close>

lemma expired_items_dated: "expired_items today (dated_rows tbl) = expired_items today tbl"
  unfolding expired_items_def dated_rows_def
  by (rule arg_cong [where f = "map select_item"], rule filter_filter_absorb,
      erule null_expiry_not_expired)

lemma critical_expiry_dated: "critical_expiry today cd (dated_rows tbl) = critical_expiry today cd tbl"
  unfolding critical_expiry_def dated_rows_def
  by (rule arg_cong [where f = "map select_item"], rule filter_filter_absorb,
      erule null_expiry_not_expiring)

lemma warning_expiry_dated: "warning_expiry wd cd (dated_rows tbl) = warning_expiry wd cd tbl"
  unfolding warning_expiry_def dated_rows_def
  by (rule arg_cong [where f = "map select_item"], rule filter_filter_absorb,
      erule null_expiry_not_expiring)

lemma check_expiry_alerts_dated:
  "check_expiry_alerts today (dated_rows tbl) s = check_expiry_alerts today tbl s"
  unfolding check_expiry_alerts_def expiry_alerts_try_def
    expired_items_dated critical_expiry_dated warning_expiry_dated
  by (rule refl)

lemma stock_groups_dated: "stock_groups today (dated_rows tbl) = stock_groups today tbl"
proof -
  have "filter (\<lambda>r. sql_where (sql_ge (expiration_date r) (Some today))) (dated_rows tbl)
        = filter (\<lambda>r. sql_where (sql_ge (expiration_date r) (Some today))) tbl"
    unfolding dated_rows_def by (rule filter_filter_absorb, erule null_expiry_not_counted)
  then show ?thesis by (simp add: stock_groups_def)
qed

lemma check_stock_alerts_dated:
  "check_stock_alerts today (dated_rows tbl) s = check_stock_alerts today tbl s"
  by (simp add: check_stock_alerts_def low_stock_items_def stock_groups_dated)

lemma get_current_alerts_dated:
  "fst (get_current_alerts conn_ok settings_conn_ok today (d\<lparr>inventory := dated_rows (inventory d)\<rparr>))
     = fst (get_current_alerts conn_ok settings_conn_ok today d)"
proof -
  let ?d = "d\<lparr>inventory := dated_rows (inventory d)\<rparr>"
  obtain s d' where g: "get_alert_settings settings_conn_ok d = (s, d')"
    by (cases "get_alert_settings settings_conn_ok d")
  obtain s2 d2 where g2: "get_alert_settings settings_conn_ok ?d = (s2, d2)"
    by (cases "get_alert_settings settings_conn_ok ?d")
  have "d' = d" using g get_alert_settings_db [of settings_conn_ok d] by simp
  moreover have "d2 = ?d" using g2 get_alert_settings_db [of settings_conn_ok ?d] by simp
  moreover have "s2 = s"
    using g g2 get_alert_settings_inventory
      [where conn_ok = settings_conn_ok and d = d and tbl = "dated_rows (inventory d)"]
    by simp
  ultimately show ?thesis using g g2
    by (simp add: get_current_alerts_def connect_def close_def Let_def
          check_expiry_alerts_dated check_stock_alerts_dated)
qed

text \<open>
  C10. A row whose \<^verbatim>\<open>expiration_date\<close> is NULL is invisible to the alert engine: it is in
  none of the three expiry selections and in no stock group, and the alerts computed from
  a database are the alerts computed from the same database with every such row removed.
\<close>

theorem null_expiration_date_invisible:
  "expired_items today [r\<lparr>expiration_date := None\<rparr>] = []
   \<and> critical_expiry today critical_date [r\<lparr>expiration_date := None\<rparr>] = []
   \<and> warning_expiry warning_date critical_date [r\<lparr>expiration_date := None\<rparr>] = []
   \<and> stock_groups today [r\<lparr>expiration_date := None\<rparr>] = []
   \<and> fst (get_current_alerts conn_ok settings_conn_ok today d)
       = fst (get_current_alerts conn_ok settings_conn_ok today
                (d\<lparr>inventory := dated_rows (inventory d)\<rparr>))"
proof -
  let ?r = "r\<lparr>expiration_date := None\<rparr>"
  have "expired_items today [?r] = []"
    by (simp add: expired_items_def sql_where_def sql_and_True sql_lt_True)
  moreover have "critical_expiry today critical_date [?r] = []"
    by (simp add: critical_expiry_def sql_where_def sql_and_True sql_le_True)
  moreover have "warning_expiry warning_date critical_date [?r] = []"
    by (simp add: warning_expiry_def sql_where_def sql_and_True sql_le_True)
  moreover have "stock_groups today [?r] = []"
    by (simp add: stock_groups_def sql_where_def sql_ge_def sql_le_True)
  ultimately show ?thesis
    by (simp add: get_current_alerts_dated)
qed

subsection \<open>The expired-items loop\<close>

lemma select_item_cell2: "select_item r ! 2 = PyStr (drug_item_name r)"
  by (simp add: select_item_def)

lemma expired_alert_raises: "expired_alert today (select_item r) = Inl TypeError"
  by (simp add: expired_alert_def select_item_cell2)

lemma append_alerts_expired:
  "items \<noteq> [] \<Longrightarrow> set items \<subseteq> range select_item
     \<Longrightarrow> append_alerts (expired_alert today) items acc = Inl TypeError"
  by (cases items) (auto simp: expired_alert_raises)

text \<open>
  As soon as one row is selected as expired, the subtraction on \<^verbatim>\<open>item[2]\<close> (the drug
  name) raises, and \<^verbatim>\<open>check_expiry_alerts\<close> returns no alert of any of its three kinds.
\<close>

lemma expired_item_aborts:
  assumes "expired_items today tbl \<noteq> []"
  shows "check_expiry_alerts today tbl s = []"
proof -
  have "set (expired_items today tbl) \<subseteq> range select_item"
    by (auto simp: expired_items_def)
  with assms have "append_alerts (expired_alert today) (expired_items today tbl) [] = Inl TypeError"
    by (rule append_alerts_expired)
  then show ?thesis
    by (simp add: check_expiry_alerts_def expiry_alerts_try_def Let_def split: sum.splits)
qed

text \<open>
  C1 (the code departs from the claim). On 2024-06-01 the row \<open>row_expired\<close>, expired the
  day before and never acknowledged, is selected by the expired-items query, the loop
  body raises a TypeError, and \<^verbatim>\<open>get_current_alerts\<close> returns no alert at all: there is
  no "Expired" alert for record 7.
\<close>

theorem expired_record_gets_no_alert:
  "expired_items 739038 [row_expired] = [select_item row_expired]
   \<and> expiry_alerts_try 739038 [row_expired] get_default_alert_settings = Inl TypeError
   \<and> fst (get_current_alerts True True 739038
            \<lparr>inventory = [row_expired], alert_settings_table = None,
                    audit_log = [], audit_trigger = True\<rparr>) = []"
  by code_simp

subsection \<open>The expiring-soon windows when no row is selected as expired\<close>

text \<open>
  When the expired-items query selects nothing and the two threshold dates exist, the
  expiry check returns one Critical alert for each row of the critical window followed by
  one Warning alert for each row of the warning window; no row is in both windows, and
  with unique ids a row in a window has exactly one alert.
\<close>

lemma expiring_alert_row:
  "expiration_date r \<noteq> None
     \<Longrightarrow> expiring_alert tier sev today (select_item r) = Inr (expiring_row_alert tier sev today r)"
  by (auto simp: expiring_alert_def select_item_def date_val_def expiring_row_alert_def dict_get_def)

lemma append_alerts_expiring:
  "(\<And>r. r \<in> set rows \<Longrightarrow> expiration_date r \<noteq> None)
     \<Longrightarrow> append_alerts (expiring_alert tier sev today) (map select_item rows) acc
         = Inr (acc @ map (expiring_row_alert tier sev today) rows)"
proof (induction rows arbitrary: acc)
  case Nil
  show ?case by simp
next
  case (Cons r rows)
  have "expiration_date r \<noteq> None" by (rule Cons.prems) simp
  then have "expiring_alert tier sev today (select_item r) = Inr (expiring_row_alert tier sev today r)"
    by (rule expiring_alert_row)
  moreover have "append_alerts (expiring_alert tier sev today) (map select_item rows)
                   (acc @ [expiring_row_alert tier sev today r])
                 = Inr ((acc @ [expiring_row_alert tier sev today r])
                          @ map (expiring_row_alert tier sev today) rows)"
    by (rule Cons.IH) (rule Cons.prems, simp)
  ultimately show ?case by simp
qed

lemma critical_window_dated: "in_critical_window today cd r \<Longrightarrow> expiration_date r \<noteq> None"
  unfolding in_critical_window_def by (rule null_expiry_not_expiring)

lemma warning_window_dated: "in_warning_window wd cd r \<Longrightarrow> expiration_date r \<noteq> None"
  unfolding in_warning_window_def by (rule null_expiry_not_expiring)

lemma expiry_alerts_without_expired_rows:
  assumes "expired_items today tbl = []"
    and "date_plus_days today (dict_get (expiry_warning_days s) 30) = Inr warning_date"
    and "date_plus_days today (dict_get (expiry_critical_days s) 7) = Inr critical_date"
  shows "check_expiry_alerts today tbl s
     = map (expiring_row_alert ''expiring_critical'' ''Critical'' today)
           (filter (in_critical_window today critical_date) tbl)
       @ map (expiring_row_alert ''expiring_warning'' ''Warning'' today)
           (filter (in_warning_window warning_date critical_date) tbl)"
proof -
  have c: "critical_expiry today critical_date tbl
             = map select_item (filter (in_critical_window today critical_date) tbl)"
    by (simp add: critical_expiry_def in_critical_window_def [abs_def])
  have w: "warning_expiry warning_date critical_date tbl
             = map select_item (filter (in_warning_window warning_date critical_date) tbl)"
    by (simp add: warning_expiry_def in_warning_window_def [abs_def])
  have c': "append_alerts (expiring_alert ''expiring_critical'' ''Critical'' today)
              (critical_expiry today critical_date tbl) []
            = Inr ([] @ map (expiring_row_alert ''expiring_critical'' ''Critical'' today)
                          (filter (in_critical_window today critical_date) tbl))"
    unfolding c by (rule append_alerts_expiring) (auto dest: critical_window_dated)
  have w': "\<And>acc. append_alerts (expiring_alert ''expiring_warning'' ''Warning'' today)
              (warning_expiry warning_date critical_date tbl) acc
            = Inr (acc @ map (expiring_row_alert ''expiring_warning'' ''Warning'' today)
                          (filter (in_warning_window warning_date critical_date) tbl))"
    unfolding w by (rule append_alerts_expiring) (auto dest: warning_window_dated)
  show ?thesis
    using assms c' w' by (simp add: check_expiry_alerts_def expiry_alerts_try_def Let_def)
qed

lemma windows_disjoint:
  "\<not> (in_critical_window today critical_date r \<and> in_warning_window warning_date critical_date r)"
  by (auto simp: in_critical_window_def in_warning_window_def sql_where_def sql_and_True
        sql_le_True sql_gt_def sql_lt_True)

lemma filter_unique_id:
  "distinct (map row_id tbl) \<Longrightarrow> r \<in> set tbl \<Longrightarrow> filter (\<lambda>x. row_id x = row_id r) tbl = [r]"
proof (induction tbl)
  case Nil
  then show ?case by simp
next
  case (Cons x tbl)
  show ?case
  proof (cases "x = r")
    case True
    with Cons.prems have "row_id r \<notin> row_id ` set tbl" by simp
    then have "\<forall>y\<in>set tbl. row_id y \<noteq> row_id r" by (metis imageI)
    then have "filter (\<lambda>x. row_id x = row_id r) tbl = []" by (simp add: filter_empty_conv)
    with True show ?thesis by simp
  next
    case False
    with Cons.prems have "r \<in> set tbl" and "row_id x \<noteq> row_id r" by auto
    with Cons show ?thesis by simp
  qed
qed

lemma filter_swap: "filter P (filter Q xs) = filter Q (filter P xs)"
  by (induction xs) auto

lemma alerts_of_record:
  "filter (\<lambda>a. record_id a = PyInt n) (map (expiring_row_alert tier sev today) rows)
     = map (expiring_row_alert tier sev today) (filter (\<lambda>x. row_id x = n) rows)"
  by (induction rows) (simp_all add: expiring_row_alert_def)

lemma critical_window_exactly_one:
  assumes "expired_items today tbl = []"
    and "date_plus_days today (dict_get (expiry_warning_days s) 30) = Inr warning_date"
    and "date_plus_days today (dict_get (expiry_critical_days s) 7) = Inr critical_date"
    and "distinct (map row_id tbl)" and "r \<in> set tbl"
    and "in_critical_window today critical_date r"
  shows "filter (\<lambda>a. record_id a = PyInt (row_id r)) (check_expiry_alerts today tbl s)
           = [expiring_row_alert ''expiring_critical'' ''Critical'' today r]"
proof -
  have one: "filter (\<lambda>x. row_id x = row_id r) tbl = [r]"
    using assms(4,5) by (rule filter_unique_id)
  have "\<not> in_warning_window warning_date critical_date r"
    using assms(6) windows_disjoint by blast
  then have w: "filter (\<lambda>x. row_id x = row_id r) (filter (in_warning_window warning_date critical_date) tbl) = []"
    by (subst filter_swap) (simp add: one)
  have c: "filter (\<lambda>x. row_id x = row_id r) (filter (in_critical_window today critical_date) tbl) = [r]"
    using assms(6) by (subst filter_swap) (simp add: one)
  show ?thesis
    by (simp add: expiry_alerts_without_expired_rows [OF assms(1-3)] alerts_of_record c w
          del: filter_filter)
qed

lemma warning_window_exactly_one:
  assumes "expired_items today tbl = []"
    and "date_plus_days today (dict_get (expiry_warning_days s) 30) = Inr warning_date"
    and "date_plus_days today (dict_get (expiry_critical_days s) 7) = Inr critical_date"
    and "distinct (map row_id tbl)" and "r \<in> set tbl"
    and "in_warning_window warning_date critical_date r"
  shows "filter (\<lambda>a. record_id a = PyInt (row_id r)) (check_expiry_alerts today tbl s)
           = [expiring_row_alert ''expiring_warning'' ''Warning'' today r]"
proof -
  have one: "filter (\<lambda>x. row_id x = row_id r) tbl = [r]"
    using assms(4,5) by (rule filter_unique_id)
  have "\<not> in_critical_window today critical_date r"
    using assms(6) windows_disjoint by blast
  then have c: "filter (\<lambda>x. row_id x = row_id r) (filter (in_critical_window today critical_date) tbl) = []"
    by (subst filter_swap) (simp add: one)
  have w: "filter (\<lambda>x. row_id x = row_id r) (filter (in_warning_window warning_date critical_date) tbl) = [r]"
    using assms(6) by (subst filter_swap) (simp add: one)
  show ?thesis
    by (simp add: expiry_alerts_without_expired_rows [OF assms(1-3)] alerts_of_record c w
          del: filter_filter)
qed

lemma not_acknowledged_True: "(not_acknowledged k r = Some True) = (k \<notin> ack_keys r)"
  by (cases "acknowledged_alerts r")
     (auto simp: not_acknowledged_def sql_or_True is_null_def jsonb_exists_def ack_keys_def
        coalesce_object_def)

lemma in_critical_window_iff:
  "in_critical_window today critical_date r
     = (\<exists>e. expiration_date r = Some e \<and> today \<le> e \<and> e \<le> critical_date
            \<and> ''expiring_critical'' \<notin> ack_keys r)"
  by (auto simp: in_critical_window_def sql_where_def sql_and_True sql_le_True sql_ge_def
        not_acknowledged_True)

lemma in_warning_window_iff:
  "in_warning_window warning_date critical_date r
     = (\<exists>e. expiration_date r = Some e \<and> critical_date < e \<and> e \<le> warning_date
            \<and> ''expiring_warning'' \<notin> ack_keys r)"
  by (auto simp: in_warning_window_def sql_where_def sql_and_True sql_le_True sql_gt_def
        sql_lt_True not_acknowledged_True)

lemma expired_items_empty_iff:
  "(expired_items today tbl = [])
     = (\<forall>r\<in>set tbl. \<not> (\<exists>e. expiration_date r = Some e \<and> e < today \<and> ''expired'' \<notin> ack_keys r))"
  by (auto simp: expired_items_def filter_empty_conv sql_where_def sql_and_True sql_lt_True
        not_acknowledged_True)

text \<open>
  C7 (the code departs from the claim). With default settings on 2024-06-01 the row
  \<open>row_critical\<close> (four days out) alone gets its Critical "Expiring Soon" alert with
  \<^verbatim>\<open>days_until_expiry\<close> 4; beside the expired row \<open>row_expired\<close> it gets none, because
  the expired-items loop has aborted the whole expiry check.
\<close>

theorem expiring_alert_lost_beside_expired_row:
  "map (\<lambda>a. (alert_id a, alert_type a, severity a, days_until_expiry a))
       (fst (get_current_alerts True True 739038
               \<lparr>inventory = [row_critical], alert_settings_table = None,
                       audit_log = [], audit_trigger = True\<rparr>))
     = [(''expiring_critical_8'', ''Expiring Soon'', ''Critical'', Some 4),
        (''stock_DrugB_Loc_Y'', ''Low Stock'', ''Warning'', None)]
   \<and> map alert_id (fst (get_current_alerts True True 739038
               \<lparr>inventory = [row_expired, row_critical], alert_settings_table = None,
                       audit_log = [], audit_trigger = True\<rparr>))
     = [''stock_DrugB_Loc_Y'']"
  by code_simp

subsection \<open>Stock alerts\<close>

lemma check_stock_alerts_ignores_switch:
  "check_stock_alerts today tbl (s\<lparr>enable_stock_alerts := b\<rparr>) = check_stock_alerts today tbl s"
  by (simp add: check_stock_alerts_def)

lemma stock_groups_positive:
  assumes "(drug_name, loc, cnt) \<in> set (stock_groups today tbl)"
  shows "cnt \<ge> 1"
proof -
  let ?rows = "filter (\<lambda>r. sql_where (sql_ge (expiration_date r) (Some today))) tbl"
  from assms obtain r where "r \<in> set ?rows"
    and "cnt = int (length (filter (\<lambda>x. (drug_item_name x, row_location x)
                                          = (drug_item_name r, row_location r)) ?rows))"
    by (auto simp: stock_groups_def Let_def)
  moreover from this have "filter (\<lambda>x. (drug_item_name x, row_location x)
                              = (drug_item_name r, row_location r)) ?rows \<noteq> []"
    by (auto simp: filter_empty_conv)
  ultimately show ?thesis
    by (cases "filter (\<lambda>x. (drug_item_name x, row_location x)
                 = (drug_item_name r, row_location r)) ?rows") auto
qed

lemma stock_groups_distinct:
  "distinct (map (\<lambda>item. (fst item, fst (snd item))) (stock_groups today tbl))"
proof -
  have "map (\<lambda>item. (fst item, fst (snd item))) (stock_groups today tbl)
        = remdups (map (\<lambda>r. (drug_item_name r, row_location r))
            (filter (\<lambda>r. sql_where (sql_ge (expiration_date r) (Some today))) tbl))"
    by (simp add: stock_groups_def Let_def comp_def)
  then show ?thesis by simp
qed

text \<open>A group of three is below the default threshold and gets severity Info.\<close>

lemma three_in_stock_is_info:
  "map (\<lambda>a. (alert_type a, severity a, stock_count a))
       (check_stock_alerts today
          [r\<lparr>expiration_date := Some today\<rparr>, r\<lparr>expiration_date := Some today\<rparr>,
           r\<lparr>expiration_date := Some today\<rparr>] get_default_alert_settings)
     = [(''Low Stock'', ''Info'', Some 3)]"
  by (simp add: check_stock_alerts_def low_stock_items_def stock_groups_def stock_alert_def
        sql_where_def sql_ge_def sql_le_def dict_get_def get_default_alert_settings_def)

text \<open>
  C6 (the code departs from the claim). The latest settings row has
  \<^verbatim>\<open>enable_stock_alerts\<close> false, and \<^verbatim>\<open>get_current_alerts\<close> still evaluates the stock
  groups: the single unexpired row of (DrugB, Loc Y) gets its "Low Stock" alert.
\<close>

theorem stock_alerts_ignore_enable_switch:
  "map (\<lambda>a. (alert_id a, alert_type a, severity a, stock_count a))
       (fst (get_current_alerts True True 739038
               \<lparr>inventory = [row_critical], alert_settings_table = Some [settings_stock_off],
                audit_log = [], audit_trigger = True\<rparr>))
     = [(''expiring_critical_8'', ''Expiring Soon'', ''Critical'', None),
        (''stock_DrugB_Loc_Y'', ''Low Stock'', ''Warning'', Some 1)]"
  by code_simp

subsection \<open>Acknowledgment\<close>

lemma merge_acknowledgment_row_id: "row_id (merge_acknowledgment k t r) = row_id r"
  by (simp add: merge_acknowledgment_def)

lemma merge_acknowledgment_twice:
  "merge_acknowledgment k t2 (merge_acknowledgment k t1 r) = merge_acknowledgment k t2 r"
  by (simp add: merge_acknowledgment_def jsonb_concat_def coalesce_object_def)

lemma merge_acknowledgment_keys: "ack_keys (merge_acknowledgment k t r) = insert k (ack_keys r)"
  by (simp add: merge_acknowledgment_def jsonb_concat_def coalesce_object_def ack_keys_def)

lemma update_rows_twice:
  "update_rows k t2 n (update_rows k t1 n tbl) = update_rows k t2 n tbl"
  by (induction tbl)
     (simp_all add: update_rows_def merge_acknowledgment_row_id merge_acknowledgment_twice)

lemma update_rows_ids_keys:
  "map (\<lambda>r. (row_id r, ack_keys r)) (update_rows k t2 n tbl)
     = map (\<lambda>r. (row_id r, ack_keys r)) (update_rows k t1 n tbl)"
  by (induction tbl)
     (simp_all add: update_rows_def merge_acknowledgment_keys merge_acknowledgment_row_id)

lemma update_rows_same_ids:
  "filter (\<lambda>r. row_id r = m) (update_rows k t n tbl)
     = update_rows k t n (filter (\<lambda>r. row_id r = m) tbl)"
  by (induction tbl) (simp_all add: update_rows_def merge_acknowledgment_row_id)

lemma update_rows_length: "length (update_rows k t n tbl) = length tbl"
  by (simp add: update_rows_def)

lemma execute_update_fields:
  "inventory (execute_update k t n w) = update_rows k t n (inventory w)"
  "alert_settings_table (execute_update k t n w) = alert_settings_table w"
  "audit_trigger (execute_update k t n w) = audit_trigger w"
  "length (audit_log (execute_update k t n w))
     = length (audit_log w)
       + (if audit_trigger w then length (filter (\<lambda>r. row_id r = n) (inventory w)) else 0)"
  by (simp_all add: execute_update_def)

lemma acknowledge_loop_single:
  "acknowledge_loop clock i [a] w =
     (case single_effect a of
        Skipped \<Rightarrow> Inr w
      | Raised e \<Rightarrow> Inl e
      | Updated k n \<Rightarrow> Inr (execute_update k (clock i) n w))"
  by (simp add: single_effect_def Let_def split: prod.splits sum.splits)

lemma acknowledge_single:
  "acknowledge_alerts True clock [a] d =
     (case single_effect a of
        Skipped \<Rightarrow> (True, d)
      | Raised e \<Rightarrow> (False, d)
      | Updated k n \<Rightarrow> (True, execute_update k (clock 0) n d))"
  by (simp add: acknowledge_alerts_def acknowledge_loop_single connect_def commit_def rollback_def
        close_def Let_def del: acknowledge_loop.simps split: ack_effect.splits)


lemma acknowledge_alerts_rolled_back:
  assumes "acknowledge_loop clock 0 ids d = Inl e"
  shows "acknowledge_alerts True clock ids d = (False, d)"
  using assms by (simp add: acknowledge_alerts_def connect_def rollback_def close_def)

subsubsection \<open>Which ids are processed and which are skipped\<close>

lemma split_first_at_underscore:
  "CHR ''_'' \<notin> set p \<Longrightarrow> split_first (p @ ''_'' @ t) = (p, t)"
  by (induction p) (auto simp: split_first_def)





lemma acknowledge_loop_no_digits:
  assumes "CHR ''_'' \<notin> set p" and "\<not> isdigit t"
  shows "acknowledge_loop clock i ((p @ ''_'' @ t) # rest) w
           = acknowledge_loop clock (Suc i) rest w"
proof -
  have "split_first (p @ ''_'' @ t) = (p, t)"
    using assms(1) by (rule split_first_at_underscore)
  with assms(2) show ?thesis
    by (simp only: acknowledge_loop.simps prod.case if_False if_cancel)
qed

lemma acknowledge_loop_refused:
  assumes "CHR ''_'' \<notin> set p" and "isdigit t"
    and "\<not> (list_all ascii_digit t \<and> length t \<le> 4300)"
  shows "acknowledge_loop clock i ((p @ ''_'' @ t) # rest) w = Inl ValueError"
proof -
  have "CHR ''_'' \<in> set (p @ ''_'' @ t)" by simp
  moreover have "split_first (p @ ''_'' @ t) = (p, t)"
    using assms(1) by (rule split_first_at_underscore)
  moreover have "int_of_digits t = Inl ValueError"
    using assms(3) by (auto simp: int_of_digits_def int_max_str_digits_def)
  ultimately show ?thesis
    using assms(2) by (simp only: acknowledge_loop.simps if_True prod.case Let_def sum.case)
qed

subsubsection \<open>Ids the engine itself makes are parsed back\<close>

lemma digit_char_code: "d < 10 \<Longrightarrow> (of_char (digit_char d) :: nat) = 48 + d"
  by (simp add: digit_char_def)

lemma digit_char_ascii: "d < 10 \<Longrightarrow> ascii_digit (digit_char d)"
  by (simp add: ascii_digit_def digit_char_code)

lemma str_nat_ascii: "list_all ascii_digit (str_nat n)"
proof (induction n rule: str_nat.induct)
  case (1 n)
  show ?case
  proof (cases "n < 10")
    case True
    then show ?thesis by (subst str_nat.simps) (simp add: digit_char_ascii)
  next
    case False
    with "1.IH" show ?thesis by (subst str_nat.simps) (simp add: digit_char_ascii)
  qed
qed


lemma decimal_value_str_nat: "decimal_value (str_nat n) = int n"
proof (induction n rule: str_nat.induct)
  case (1 n)
  show ?case
  proof (cases "n < 10")
    case True
    then show ?thesis
      by (subst str_nat.simps) (simp add: decimal_value_def digit_char_code)
  next
    case False
    with "1.IH" have ih: "decimal_value (str_nat (n div 10)) = int (n div 10)" by simp
    have "int n = int (10 * (n div 10) + n mod 10)" by simp
    also have "\<dots> = 10 * int (n div 10) + int (n mod 10)"
      by (simp only: of_nat_add of_nat_mult of_nat_numeral)
    finally have "10 * int (n div 10) + int (n mod 10) = int n" by simp
    with False ih show ?thesis
      by (subst str_nat.simps) (simp add: decimal_value_def digit_char_code)
  qed
qed

lemma str_nat_inject:
  assumes "str_nat m = str_nat n"
  shows "m = n"
proof -
  have "int m = decimal_value (str_nat m)" by (simp only: decimal_value_str_nat)
  also have "\<dots> = decimal_value (str_nat n)" by (simp only: assms)
  also have "\<dots> = int n" by (simp only: decimal_value_str_nat)
  finally show ?thesis by simp
qed




subsubsection \<open>Concrete runs\<close>

lemma loop_expired_7:
  "acknowledge_loop clock 0 [''expired_7''] w
     = Inr (execute_update ''expired_acknowledged'' (clock 0) 7 w)"
  by (simp add: split_first_def isdigit_def isdigit_char_def int_of_digits_def ascii_digit_def
        decimal_value_def int_max_str_digits_def)


lemma loop_expiring_id:
  "acknowledge_loop clock i [''expiring_critical_8''] w = Inr w
   \<and> acknowledge_loop clock i [''expiring_warning_42''] w = Inr w"
  by (simp add: split_first_def isdigit_def isdigit_char_def)

lemma acknowledge_expiring_id:
  "acknowledge_alerts True clock [''expiring_critical_8''] d = (True, d)
   \<and> acknowledge_alerts True clock [''expiring_warning_42''] d = (True, d)"
  by (simp add: acknowledge_alerts_def loop_expiring_id connect_def commit_def close_def
        del: acknowledge_loop.simps)

lemma stamps_differ: "stamp1 \<noteq> stamp2"
  by (simp add: stamp1_def stamp2_def)

lemma record_7_after_once:
  "map (\<lambda>r. coalesce_object (acknowledged_alerts r) ''expired_acknowledged'')
     (filter (\<lambda>r. row_id r = 7)
        (inventory (snd (acknowledge_alerts True (\<lambda>_. stamp1) [''expired_7''] db_example))))
   = [Some stamp1]"
  by (simp add: acknowledge_alerts_def loop_expired_7 connect_def commit_def close_def db_example_def
        execute_update_def update_rows_def merge_acknowledgment_def jsonb_concat_def
        coalesce_object_def row_expired_def row_critical_def row_warning_def
        del: acknowledge_loop.simps)

lemma record_7_after_twice:
  "map (\<lambda>r. coalesce_object (acknowledged_alerts r) ''expired_acknowledged'')
     (filter (\<lambda>r. row_id r = 7)
        (inventory (snd (acknowledge_alerts True (\<lambda>_. stamp2) [''expired_7'']
           (snd (acknowledge_alerts True (\<lambda>_. stamp1) [''expired_7''] db_example))))))
   = [Some stamp2]"
  by (simp add: acknowledge_alerts_def loop_expired_7 connect_def commit_def close_def db_example_def
        execute_update_def update_rows_def merge_acknowledgment_def jsonb_concat_def
        coalesce_object_def row_expired_def row_critical_def row_warning_def
        del: acknowledge_loop.simps)

text \<open>
  With the audit trigger installed, one acknowledgment of record 7 leaves one row in
  \<^verbatim>\<open>audit_log\<close> and two acknowledgments leave two.
\<close>

lemma audit_rows_after_once_and_twice:
  "length (audit_log (snd (acknowledge_alerts True (\<lambda>_. stamp1) [''expired_7''] db_example))) = 1
   \<and> length (audit_log (snd (acknowledge_alerts True (\<lambda>_. stamp2) [''expired_7'']
        (snd (acknowledge_alerts True (\<lambda>_. stamp1) [''expired_7''] db_example))))) = 2"
  by (simp add: acknowledge_alerts_def loop_expired_7 connect_def commit_def close_def db_example_def
        execute_update_def update_rows_def merge_acknowledgment_def
        row_expired_def row_critical_def row_warning_def
        del: acknowledge_loop.simps)

text \<open>
  The key that \<^verbatim>\<open>acknowledge_alerts\<close> writes for a tier is the tier's name followed by
  \<^verbatim>\<open>_acknowledged\<close>, and the queries test the bare name: writing the one never changes
  the test of the other.
\<close>

lemma written_key_not_tested:
  "not_acknowledged k (merge_acknowledgment (k @ ''_acknowledged'') t r) = not_acknowledged k r"
  by (auto simp: not_acknowledged_def merge_acknowledgment_def jsonb_exists_def is_null_def
        jsonb_concat_def coalesce_object_def split: option.splits)

subsubsection \<open>No acknowledgment changes an evaluation\<close>

text \<open>
  The key written is the text before the id's first underscore followed by
  \<^verbatim>\<open>_acknowledged\<close>; it is none of the three keys the queries test. So whatever ids are
  acknowledged, the alerts evaluated afterwards are, up to the order in which the server
  returns the rows, the alerts evaluated before.
\<close>

lemma not_acknowledged_other_key:
  "k \<noteq> k' \<Longrightarrow> not_acknowledged k (merge_acknowledgment k' t r) = not_acknowledged k r"
  by (auto simp: not_acknowledged_def merge_acknowledgment_def jsonb_exists_def is_null_def
        jsonb_concat_def coalesce_object_def split: option.splits)

lemma written_key_shape:
  assumes "k' = takeWhile (\<lambda>c. c \<noteq> CHR ''_'') a @ ''_acknowledged''"
  shows "k' \<noteq> ''expired'' \<and> k' \<noteq> ''expiring_critical'' \<and> k' \<noteq> ''expiring_warning''"
proof -
  have "dropWhile (\<lambda>c. c \<noteq> CHR ''_'') k' = ''_acknowledged''"
    unfolding assms by (subst dropWhile_append2) (auto dest: set_takeWhileD)
  moreover have "dropWhile (\<lambda>c. c \<noteq> CHR ''_'') ''expired'' = []" by simp
  moreover have "dropWhile (\<lambda>c. c \<noteq> CHR ''_'') ''expiring_critical'' = ''_critical''" by simp
  moreover have "dropWhile (\<lambda>c. c \<noteq> CHR ''_'') ''expiring_warning'' = ''_warning''" by simp
  ultimately show ?thesis by auto
qed

lemma same_selection_refl: "same_selection r r"
  by (simp add: same_selection_def)

lemma same_selection_trans: "same_selection a b \<Longrightarrow> same_selection b c \<Longrightarrow> same_selection a c"
  by (simp add: same_selection_def)

lemma same_selection_list_trans:
  "list_all2 same_selection xs ys \<Longrightarrow> list_all2 same_selection ys zs
     \<Longrightarrow> list_all2 same_selection xs zs"
  by (rule list_all2_trans [of same_selection same_selection same_selection])
     (auto intro: same_selection_trans)

lemma merge_same_selection:
  assumes "k' = takeWhile (\<lambda>c. c \<noteq> CHR ''_'') a @ ''_acknowledged''"
  shows "same_selection r (merge_acknowledgment k' t r)"
proof -
  from written_key_shape [OF assms]
  have ne: "''expired'' \<noteq> k'" "''expiring_critical'' \<noteq> k'" "''expiring_warning'' \<noteq> k'"
    by auto
  have "(merge_acknowledgment k' t r)\<lparr>acknowledged_alerts := None\<rparr> = r\<lparr>acknowledged_alerts := None\<rparr>"
    by (simp add: merge_acknowledgment_def)
  with ne show ?thesis
    by (simp only: same_selection_def not_acknowledged_other_key simp_thms)
qed

lemma update_rows_same_selection:
  assumes "k' = takeWhile (\<lambda>c. c \<noteq> CHR ''_'') a @ ''_acknowledged''"
  shows "list_all2 same_selection tbl (update_rows k' t n tbl)"
  by (induction tbl)
     (simp_all add: update_rows_def same_selection_refl merge_same_selection [OF assms])

lemma acknowledge_loop_same_selection:
  "acknowledge_loop clock i ids w = Inr w'
     \<Longrightarrow> list_all2 same_selection (inventory w) (inventory w')
         \<and> alert_settings_table w' = alert_settings_table w"
proof (induction ids arbitrary: i w)
  case Nil
  then show ?case by (auto simp: list_all2_refl same_selection_refl)
next
  case (Cons a ids)
  show ?case
  proof (cases "CHR ''_'' \<in> set a \<and> isdigit (snd (split_first a))")
    case False
    with Cons.prems have "acknowledge_loop clock (Suc i) ids w = Inr w'"
      by (auto split: prod.splits if_splits)
    then show ?thesis by (rule Cons.IH)
  next
    case True
    let ?k = "fst (split_first a) @ ''_acknowledged''"
    from True Cons.prems obtain n where
      rest: "acknowledge_loop clock (Suc i) ids (execute_update ?k (clock i) n w) = Inr w'"
      by (auto simp: Let_def split: prod.splits sum.splits)
    have "list_all2 same_selection (inventory w) (update_rows ?k (clock i) n (inventory w))"
      by (rule update_rows_same_selection [where a = a]) (simp add: split_first_def)
    then have step: "list_all2 same_selection (inventory w)
                       (inventory (execute_update ?k (clock i) n w))"
      by (simp only: execute_update_fields)
    from rest have ih: "list_all2 same_selection
          (inventory (execute_update ?k (clock i) n w)) (inventory w')
        \<and> alert_settings_table w' = alert_settings_table (execute_update ?k (clock i) n w)"
      by (rule Cons.IH)
    from step ih have "list_all2 same_selection (inventory w) (inventory w')"
      by (blast intro: same_selection_list_trans)
    with ih show ?thesis by (simp add: execute_update_fields)
  qed
qed

lemma same_selection_fields:
  assumes "same_selection r r'"
  shows "select_item r' = select_item r" and "expiration_date r' = expiration_date r"
    and "drug_item_name r' = drug_item_name r" and "row_location r' = row_location r"
proof -
  from assms have eq: "r'\<lparr>acknowledged_alerts := None\<rparr> = r\<lparr>acknowledged_alerts := None\<rparr>"
    by (simp add: same_selection_def)
  from arg_cong [OF eq, of expiration_date] show e: "expiration_date r' = expiration_date r" by simp
  from arg_cong [OF eq, of drug_item_name] show "drug_item_name r' = drug_item_name r" by simp
  from arg_cong [OF eq, of row_location] show "row_location r' = row_location r" by simp
  from arg_cong [OF eq, of select_item] show "select_item r' = select_item r"
    by (simp add: select_item_def)
qed

lemma map_filter_related:
  assumes "list_all2 R xs ys"
    and "\<And>x y. R x y \<Longrightarrow> P y = P x"
    and "\<And>x y. R x y \<Longrightarrow> f y = f x"
  shows "map f (filter P ys) = map f (filter P xs)"
  using assms(1)
proof (induction rule: list_all2_induct)
  case Nil
  show ?case by simp
next
  case (Cons x xs y ys)
  from Cons(1) have "P y = P x" and "f y = f x" by (rule assms(2), rule assms(3))
  with Cons.IH show ?case by simp
qed

lemma expired_items_same:
  assumes "list_all2 same_selection tbl tbl'"
  shows "expired_items today tbl' = expired_items today tbl"
  unfolding expired_items_def using assms
  by (rule map_filter_related) (simp_all add: same_selection_fields, simp add: same_selection_def)

lemma critical_expiry_same:
  assumes "list_all2 same_selection tbl tbl'"
  shows "critical_expiry today cd tbl' = critical_expiry today cd tbl"
  unfolding critical_expiry_def using assms
  by (rule map_filter_related) (simp_all add: same_selection_fields, simp add: same_selection_def)

lemma warning_expiry_same:
  assumes "list_all2 same_selection tbl tbl'"
  shows "warning_expiry wd cd tbl' = warning_expiry wd cd tbl"
  unfolding warning_expiry_def using assms
  by (rule map_filter_related) (simp_all add: same_selection_fields, simp add: same_selection_def)

lemma check_expiry_alerts_same:
  assumes "list_all2 same_selection tbl tbl'"
  shows "check_expiry_alerts today tbl' s = check_expiry_alerts today tbl s"
  unfolding check_expiry_alerts_def expiry_alerts_try_def
    expired_items_same [OF assms] critical_expiry_same [OF assms] warning_expiry_same [OF assms]
  by (rule refl)

lemma stock_groups_by_keys:
  "stock_groups today tbl =
     (let ks = map (\<lambda>r. (drug_item_name r, row_location r))
                 (filter (\<lambda>r. sql_where (sql_ge (expiration_date r) (Some today))) tbl)
      in map (\<lambda>k. (fst k, snd k, int (length (filter (\<lambda>x. x = k) ks)))) (remdups ks))"
  by (simp add: stock_groups_def Let_def filter_map comp_def)

lemma stock_groups_same:
  assumes "list_all2 same_selection tbl tbl'"
  shows "stock_groups today tbl' = stock_groups today tbl"
proof -
  have "map (\<lambda>r. (drug_item_name r, row_location r))
          (filter (\<lambda>r. sql_where (sql_ge (expiration_date r) (Some today))) tbl')
      = map (\<lambda>r. (drug_item_name r, row_location r))
          (filter (\<lambda>r. sql_where (sql_ge (expiration_date r) (Some today))) tbl)"
    using assms by (rule map_filter_related) (simp_all add: same_selection_fields)
  then show ?thesis by (simp only: stock_groups_by_keys)
qed

lemma check_stock_alerts_same:
  assumes "list_all2 same_selection tbl tbl'"
  shows "check_stock_alerts today tbl' s = check_stock_alerts today tbl s"
  by (simp add: check_stock_alerts_def low_stock_items_def stock_groups_same [OF assms])

lemma get_alert_settings_table_only:
  "alert_settings_table d' = alert_settings_table d
     \<Longrightarrow> fst (get_alert_settings conn_ok d') = fst (get_alert_settings conn_ok d)"
  by (simp add: get_alert_settings_def connect_def create_table_if_not_exists_def close_def Let_def
           split: option.splits)

lemma get_current_alerts_same:
  assumes "list_all2 same_selection (inventory d) (inventory d')"
    and "alert_settings_table d' = alert_settings_table d"
  shows "fst (get_current_alerts conn_ok settings_conn_ok today d')
           = fst (get_current_alerts conn_ok settings_conn_ok today d)"
proof -
  obtain s d1 where g: "get_alert_settings settings_conn_ok d = (s, d1)"
    by (cases "get_alert_settings settings_conn_ok d")
  obtain s2 d2 where g2: "get_alert_settings settings_conn_ok d' = (s2, d2)"
    by (cases "get_alert_settings settings_conn_ok d'")
  have "d1 = d" using g get_alert_settings_db [of settings_conn_ok d] by simp
  moreover have "d2 = d'" using g2 get_alert_settings_db [of settings_conn_ok d'] by simp
  moreover have "s2 = s"
    using g g2 get_alert_settings_table_only [OF assms(2), of settings_conn_ok] by simp
  ultimately show ?thesis using g g2
    by (simp add: get_current_alerts_def connect_def close_def Let_def
          check_expiry_alerts_same [OF assms(1)] check_stock_alerts_same [OF assms(1)])
qed

lemma acknowledge_alerts_same_selection:
  "list_all2 same_selection (inventory d) (inventory (snd (acknowledge_alerts c clock ids d)))
   \<and> alert_settings_table (snd (acknowledge_alerts c clock ids d)) = alert_settings_table d"
proof (cases "c \<and> (\<exists>w'. acknowledge_loop clock 0 ids d = Inr w')")
  case True
  then obtain w' where w': "acknowledge_loop clock 0 ids d = Inr w'" and c by blast
  then have "snd (acknowledge_alerts c clock ids d) = w'"
    by (simp add: acknowledge_alerts_def connect_def commit_def close_def)
  with acknowledge_loop_same_selection [OF w'] show ?thesis by simp
next
  case False
  then have "snd (acknowledge_alerts c clock ids d) = d"
    by (cases "acknowledge_loop clock 0 ids d")
       (auto simp: acknowledge_alerts_def connect_def rollback_def close_def)
  then show ?thesis by (simp add: list_all2_refl same_selection_refl)
qed

lemma acknowledgment_never_suppresses:
  "mset (fst (get_current_alerts conn_ok settings_conn_ok today
                (snd (acknowledge_alerts c clock ids d))))
     = mset (fst (get_current_alerts conn_ok settings_conn_ok today d))"
proof -
  from acknowledge_alerts_same_selection [of d c clock ids]
  have "fst (get_current_alerts conn_ok settings_conn_ok today
               (snd (acknowledge_alerts c clock ids d)))
          = fst (get_current_alerts conn_ok settings_conn_ok today d)"
    by (blast intro: get_current_alerts_same)
  then show ?thesis by (rule arg_cong)
qed

text \<open>
  An id that passes \<^verbatim>\<open>isdigit()\<close> and that \<^verbatim>\<open>int()\<close> refuses (here the superscript two,
  code point 178) raises inside the loop: the batch is rolled back, with the update of
  record 7 that came before it, and the call returns \<open>False\<close>.
\<close>

lemma superscript_digit_rolls_back:
  "acknowledge_alerts True clock [''expired_7'', ''expired_'' @ [CHR 0xB2]] d = (False, d)"
  by (simp add: acknowledge_alerts_def split_first_def isdigit_def isdigit_char_def
        int_of_digits_def ascii_digit_def int_max_str_digits_def connect_def rollback_def close_def)

text \<open>
  C2 (the code departs from the claim). Record 42 expires in nineteen days. Acknowledging
  \<^verbatim>\<open>expiring_warning_42\<close> reports success and leaves the database as it was, and the next
  evaluation of the unchanged data still holds the alert with that id.
\<close>

theorem acknowledged_warning_still_active:
  "acknowledge_alerts True (\<lambda>_. stamp1) [''expiring_warning_42'']
       \<lparr>inventory = [row_warning], alert_settings_table = None,
               audit_log = [], audit_trigger = True\<rparr>
     = (True, \<lparr>inventory = [row_warning], alert_settings_table = None,
                      audit_log = [], audit_trigger = True\<rparr>)
   \<and> map alert_id (fst (get_current_alerts True True 739038
         (snd (acknowledge_alerts True (\<lambda>_. stamp1) [''expiring_warning_42'']
                 \<lparr>inventory = [row_warning], alert_settings_table = None,
                         audit_log = [], audit_trigger = True\<rparr>))))
     = [''expiring_warning_42'', ''stock_DrugC_None'']"
proof -
  have "map alert_id (fst (get_current_alerts True True 739038
          \<lparr>inventory = [row_warning], alert_settings_table = None,
                  audit_log = [], audit_trigger = True\<rparr>))
        = [''expiring_warning_42'', ''stock_DrugC_None'']"
    by code_simp
  then show ?thesis by (simp add: acknowledge_expiring_id)
qed

subsection \<open>What a batch of acknowledgments does\<close>





lemma underscore_not_isdigit: "\<not> isdigit (xs @ ''_'' @ ys)"
proof -
  have "\<not> isdigit_char CHR ''_''" by code_simp
  then show ?thesis by (simp add: isdigit_def)
qed



lemma expiring_id_texts:
  "''expiring_critical_'' @ x = ''expiring'' @ ''_'' @ (''critical'' @ ''_'' @ x)"
  "''expiring_warning_'' @ x = ''expiring'' @ ''_'' @ (''warning'' @ ''_'' @ x)"
  "CHR ''_'' \<notin> set ''expiring''"
  by simp_all

text \<open>
  The ids that the evaluation writes for the two expiring-soon tiers have a second
  underscore after the first, so the text after the first underscore is never all digits.
\<close>

lemma acknowledge_loop_expiring_ids:
  "acknowledge_loop clock i ((''expiring_critical_'' @ x) # rest) w
     = acknowledge_loop clock (Suc i) rest w"
  "acknowledge_loop clock i ((''expiring_warning_'' @ x) # rest) w
     = acknowledge_loop clock (Suc i) rest w"
  by (simp_all only: expiring_id_texts(1,2)
        acknowledge_loop_no_digits [OF expiring_id_texts(3) underscore_not_isdigit])







subsection \<open>Acknowledging twice\<close>

lemma update_rows_count:
  "length (filter (\<lambda>r. row_id r = m) (update_rows k t n tbl))
     = length (filter (\<lambda>r. row_id r = m) tbl)"
  by (simp add: update_rows_same_ids update_rows_length)

lemma execute_update_twice_inventory:
  "inventory (execute_update k t2 n (execute_update k t1 n d))
     = inventory (execute_update k t2 n d)"
  by (simp only: execute_update_fields update_rows_twice)

lemma execute_update_ids_keys:
  "map (\<lambda>r. (row_id r, ack_keys r)) (inventory (execute_update k t2 n w))
     = map (\<lambda>r. (row_id r, ack_keys r)) (update_rows k t1 n (inventory w))"
  by (simp only: execute_update_fields update_rows_ids_keys [of k t2 n _ t1])

lemma execute_update_twice_audit:
  "length (audit_log (execute_update k t2 n (execute_update k t1 n d)))
     = length (audit_log d)
       + 2 * (if audit_trigger d then length (filter (\<lambda>r. row_id r = n) (inventory d)) else 0)"
  by (simp add: execute_update_fields update_rows_count)

text \<open>
  C4 (amended). Acknowledging one id twice in sequence leaves the rows of the inventory
  that a single acknowledgment at the second call's time leaves: every record has the
  keys it had after the first call, the second call succeeds exactly when the first did,
  and the value of the acknowledged key is the second call's timestamp; when both calls
  read the same timestamp the rows are those left by the first call. The second call is
  not a no-op on the database: each call that updates rows adds a row to \<^verbatim>\<open>audit_log\<close>
  for each of them where the audit trigger is installed, so two calls add twice what one
  call adds. (Tables are compared as multisets of rows.)
\<close>

theorem acknowledge_twice_amended:
  "mset (inventory (snd (acknowledge_alerts True clock2 [a]
                           (snd (acknowledge_alerts True clock1 [a] d)))))
     = mset (inventory (snd (acknowledge_alerts True clock2 [a] d)))
   \<and> mset (map (\<lambda>r. (row_id r, ack_keys r))
            (inventory (snd (acknowledge_alerts True clock2 [a]
                               (snd (acknowledge_alerts True clock1 [a] d))))))
     = mset (map (\<lambda>r. (row_id r, ack_keys r))
            (inventory (snd (acknowledge_alerts True clock1 [a] d))))
   \<and> fst (acknowledge_alerts True clock2 [a] (snd (acknowledge_alerts True clock1 [a] d)))
     = fst (acknowledge_alerts True clock1 [a] d)
   \<and> mset (inventory (snd (acknowledge_alerts True clock1 [a]
                             (snd (acknowledge_alerts True clock1 [a] d)))))
     = mset (inventory (snd (acknowledge_alerts True clock1 [a] d)))
   \<and> length (audit_log (snd (acknowledge_alerts True clock1 [a] d)))
     = length (audit_log d) + audited_updates a d
   \<and> length (audit_log (snd (acknowledge_alerts True clock2 [a]
                              (snd (acknowledge_alerts True clock1 [a] d)))))
     = length (audit_log d) + 2 * audited_updates a d"
proof (cases "single_effect a")
  case Skipped
  then show ?thesis by (simp add: acknowledge_single audited_updates_def)
next
  case (Raised e)
  then show ?thesis by (simp add: acknowledge_single audited_updates_def)
next
  case (Updated k n)
  then show ?thesis
    by (simp add: acknowledge_single audited_updates_def execute_update_twice_inventory
          execute_update_twice_audit execute_update_fields(4) [of k "clock1 0" n d]
          execute_update_ids_keys [of k "clock2 0" n _ "clock1 0"]
          execute_update_fields(1) [of k "clock1 0" n d])
qed

text \<open>
  Counterexample for C4 as stated: record 7 acknowledged at \<open>stamp1\<close> and again at
  \<open>stamp2\<close> does not hold what it held after the first call. After the first call the
  key \<^verbatim>\<open>expired_acknowledged\<close> of record 7 holds \<open>stamp1\<close>, after the second \<open>stamp2\<close>.
\<close>

theorem acknowledge_twice_counterexample:
  "snd (acknowledge_alerts True (\<lambda>_. stamp2) [''expired_7'']
          (snd (acknowledge_alerts True (\<lambda>_. stamp1) [''expired_7''] db_example)))
   \<noteq> snd (acknowledge_alerts True (\<lambda>_. stamp1) [''expired_7''] db_example)
   \<and> map (\<lambda>r. coalesce_object (acknowledged_alerts r) ''expired_acknowledged'')
       (filter (\<lambda>r. row_id r = 7)
          (inventory (snd (acknowledge_alerts True (\<lambda>_. stamp1) [''expired_7''] db_example))))
     = [Some stamp1]
   \<and> map (\<lambda>r. coalesce_object (acknowledged_alerts r) ''expired_acknowledged'')
       (filter (\<lambda>r. row_id r = 7)
          (inventory (snd (acknowledge_alerts True (\<lambda>_. stamp2) [''expired_7'']
             (snd (acknowledge_alerts True (\<lambda>_. stamp1) [''expired_7''] db_example))))))
     = [Some stamp2]
   \<and> stamp1 \<noteq> stamp2"
proof (intro conjI)
  show "snd (acknowledge_alerts True (\<lambda>_. stamp2) [''expired_7'']
          (snd (acknowledge_alerts True (\<lambda>_. stamp1) [''expired_7''] db_example)))
   \<noteq> snd (acknowledge_alerts True (\<lambda>_. stamp1) [''expired_7''] db_example)"
  proof
    assume "snd (acknowledge_alerts True (\<lambda>_. stamp2) [''expired_7'']
            (snd (acknowledge_alerts True (\<lambda>_. stamp1) [''expired_7''] db_example)))
          = snd (acknowledge_alerts True (\<lambda>_. stamp1) [''expired_7''] db_example)"
    then have "[Some stamp2] = [Some stamp1]"
      using record_7_after_once record_7_after_twice by simp
    then show False using stamps_differ by simp
  qed
qed (rule record_7_after_once record_7_after_twice stamps_differ)+

subsection \<open>Acknowledgment keys are never removed\<close>

lemma keys_kept_list_refl: "list_all2 keys_kept tbl tbl"
  by (simp add: list_all2_refl keys_kept_def)

lemma keys_kept_list_trans:
  "list_all2 keys_kept xs ys \<Longrightarrow> list_all2 keys_kept ys zs \<Longrightarrow> list_all2 keys_kept xs zs"
  by (rule list_all2_trans [of keys_kept keys_kept keys_kept]) (auto simp: keys_kept_def)

lemma update_rows_keys_kept: "list_all2 keys_kept tbl (update_rows k t n tbl)"
  by (induction tbl)
     (auto simp: update_rows_def keys_kept_def merge_acknowledgment_keys
        merge_acknowledgment_row_id)

lemma acknowledge_loop_keys_kept:
  "acknowledge_loop clock i ids w = Inr w' \<Longrightarrow> list_all2 keys_kept (inventory w) (inventory w')"
proof (induction ids arbitrary: i w)
  case Nil
  then show ?case by (auto simp: keys_kept_list_refl)
next
  case (Cons a ids)
  show ?case
  proof (cases "CHR ''_'' \<in> set a \<and> isdigit (snd (split_first a))")
    case False
    with Cons.prems have "acknowledge_loop clock (Suc i) ids w = Inr w'"
      by (auto split: prod.splits if_splits)
    then show ?thesis by (rule Cons.IH)
  next
    case True
    let ?k = "fst (split_first a) @ ''_acknowledged''"
    from True Cons.prems obtain n where
      rest: "acknowledge_loop clock (Suc i) ids (execute_update ?k (clock i) n w) = Inr w'"
      by (auto simp: Let_def split: prod.splits sum.splits)
    have "list_all2 keys_kept (inventory w) (inventory (execute_update ?k (clock i) n w))"
      by (simp only: execute_update_fields update_rows_keys_kept)
    moreover from rest
    have "list_all2 keys_kept (inventory (execute_update ?k (clock i) n w)) (inventory w')"
      by (rule Cons.IH)
    ultimately show ?thesis by (rule keys_kept_list_trans)
  qed
qed

lemma acknowledge_alerts_keys_kept:
  "list_all2 keys_kept (inventory d) (inventory (snd (acknowledge_alerts conn_ok clock ids d)))"
  by (auto simp: acknowledge_alerts_def connect_def commit_def rollback_def close_def Let_def
        keys_kept_list_refl acknowledge_loop_keys_kept split: sum.splits)

lemma save_alert_settings_inventory:
  "inventory (snd (save_alert_settings conn_ok username now s d)) = inventory d"
  by (simp add: save_alert_settings_def execute_insert_def connect_def commit_def rollback_def
        close_def Let_def split: option.splits)

lemma apply_op_keys_kept: "list_all2 keys_kept (inventory d) (inventory (apply_op x d))"
proof (cases x)
  case (Evaluate c sc today)
  then show ?thesis by (simp add: get_current_alerts_db keys_kept_list_refl)
next
  case (Acknowledge c clock ids)
  then show ?thesis by (simp add: acknowledge_alerts_keys_kept)
next
  case (GetSettings c)
  then show ?thesis by (simp add: get_alert_settings_db keys_kept_list_refl)
next
  case (SaveSettings c u now s)
  then show ?thesis by (simp add: save_alert_settings_inventory keys_kept_list_refl)
qed

text \<open>
  C5. Through any finite sequence of evaluations, acknowledgments, settings reads and
  settings saves, with any connection outcomes, the inventory keeps its rows in place,
  each with its id, and the key set of each row's \<^verbatim>\<open>acknowledged_alerts\<close> contains the key
  set it had before: no operation of the engine removes a key.
\<close>

theorem acknowledged_keys_monotone:
  "list_all2 keys_kept (inventory d) (inventory (run_ops ops d))"
proof (induction ops arbitrary: d)
  case Nil
  then show ?case by (simp add: run_ops_def keys_kept_list_refl)
next
  case (Cons x ops)
  have "list_all2 keys_kept (inventory (apply_op x d)) (inventory (run_ops ops (apply_op x d)))"
    by (rule Cons.IH)
  with apply_op_keys_kept [of d x] show ?case
    unfolding run_ops_def fold_simps by (rule keys_kept_list_trans)
qed

subsection \<open>The alert summary\<close>

lemma append_lines_concat: "append_lines xs content = content @ concat (map alert_line xs)"
  by (induction xs arbitrary: content) simp_all

lemma more_marker_eq:
  "(if length xs > 10 then ''... and '' @ str_int (int (length xs) - 10) @ what @ newline else [])
     = more_marker xs what"
  by (simp add: more_marker_def)

lemma content_shape:
  "(if b2 then append_lines ys ((if b1 then append_lines xs h @ m1 else append_lines xs h) @ w) @ m2
    else append_lines ys ((if b1 then append_lines xs h @ m1 else append_lines xs h) @ w)) @ p
   = h @ concat (map alert_line xs) @ (if b1 then m1 else []) @ w
       @ concat (map alert_line ys) @ (if b2 then m2 else []) @ p"
  by (simp add: append_lines_concat)

lemma summary_content_folded:
  assumes ne: "alerts \<noteq> []"
  shows "summary_content now_text alerts =
     summary_header now_text (length alerts) (length (critical_alerts alerts))
       (length (warning_alerts alerts))
     @ concat (map alert_line (take 10 (critical_alerts alerts)))
     @ more_marker (critical_alerts alerts) '' more critical alerts''
     @ (newline @ ''Warning Alerts:'' @ newline)
     @ concat (map alert_line (take 10 (warning_alerts alerts)))
     @ more_marker (warning_alerts alerts) '' more warnings''
     @ newline @ ''Please review the inventory system for detailed information.''"
  unfolding summary_content_def Let_def
  by (simp only: ne if_False content_shape more_marker_eq)

text \<open>The content of a non-empty list, written out as text.\<close>

lemma summary_content_text:
  assumes ne: "alerts \<noteq> []"
  shows "summary_content now_text alerts =
     newline @ indent @ ''Inventory Alert Summary - '' @ now_text @ newline
     @ indent @ newline
     @ indent @ ''Total Active Alerts: '' @ str_int (int (length alerts)) @ newline
     @ indent @ ''- Critical: ''
         @ str_int (int (length (filter (\<lambda>a. severity a = ''Critical'') alerts))) @ newline
     @ indent @ ''- Warnings: ''
         @ str_int (int (length (filter (\<lambda>a. severity a = ''Warning'') alerts))) @ newline
     @ indent @ newline
     @ indent @ ''Critical Alerts:'' @ newline
     @ indent
     @ concat (map (\<lambda>a. ''- '' @ alert_type a @ '': '' @ py_str (item_name a) @ '' (''
                          @ py_str (patient_name a) @ '') - '' @ message a @ newline)
                 (take 10 (filter (\<lambda>a. severity a = ''Critical'') alerts)))
     @ (if 10 < length (filter (\<lambda>a. severity a = ''Critical'') alerts)
        then ''... and ''
             @ str_int (int (length (filter (\<lambda>a. severity a = ''Critical'') alerts) - 10))
             @ '' more critical alerts'' @ newline
        else [])
     @ newline @ ''Warning Alerts:'' @ newline
     @ concat (map (\<lambda>a. ''- '' @ alert_type a @ '': '' @ py_str (item_name a) @ '' (''
                          @ py_str (patient_name a) @ '') - '' @ message a @ newline)
                 (take 10 (filter (\<lambda>a. severity a = ''Warning'') alerts)))
     @ (if 10 < length (filter (\<lambda>a. severity a = ''Warning'') alerts)
        then ''... and ''
             @ str_int (int (length (filter (\<lambda>a. severity a = ''Warning'') alerts) - 10))
             @ '' more warnings'' @ newline
        else [])
     @ newline @ ''Please review the inventory system for detailed information.''"
  using summary_content_folded [OF ne, of now_text]
  by (simp only: summary_header_def alert_line_def [abs_def] critical_alerts_def
        warning_alerts_def more_marker_def length_drop append_assoc)

lemma str_int_of_nat: "str_int (int n) = str_nat n"
  by (simp add: str_int_def)

lemma summary_subject_count:
  "(summary_subject xs = summary_subject ys) = (length xs = length ys)"
proof
  assume "summary_subject xs = summary_subject ys"
  then have "str_nat (length xs) = str_nat (length ys)"
    by (simp only: summary_subject_def str_int_of_nat same_append_eq append_same_eq)
  then show "length xs = length ys" by (rule str_nat_inject)
next
  assume "length xs = length ys"
  then show "summary_subject xs = summary_subject ys" by (simp only: summary_subject_def)
qed

lemma summary_content_time:
  assumes ne: "alerts \<noteq> []"
  shows "(summary_content now_a alerts = summary_content now_b alerts) = (now_a = now_b)"
  by (simp only: summary_content_text [OF ne] same_append_eq append_same_eq)

lemma summary_content_first_ten:
  assumes "xs \<noteq> []" and "ys \<noteq> []" and "length xs = length ys"
    and "length (filter (\<lambda>a. severity a = ''Critical'') xs)
           = length (filter (\<lambda>a. severity a = ''Critical'') ys)"
    and "length (filter (\<lambda>a. severity a = ''Warning'') xs)
           = length (filter (\<lambda>a. severity a = ''Warning'') ys)"
    and "take 10 (filter (\<lambda>a. severity a = ''Critical'') xs)
           = take 10 (filter (\<lambda>a. severity a = ''Critical'') ys)"
    and "take 10 (filter (\<lambda>a. severity a = ''Warning'') xs)
           = take 10 (filter (\<lambda>a. severity a = ''Warning'') ys)"
  shows "summary_content now_text xs = summary_content now_text ys"
  by (simp only: summary_content_text [OF assms(1)] summary_content_text [OF assms(2)] assms(3-7))

text \<open>
  A count is written in digits and followed by a newline, so it can be read back from
  the text that holds it.
\<close>

lemma newline_not_digit: "takeWhile ascii_digit (newline @ r) = []"
proof -
  have "\<not> ascii_digit (CHR 0x0A)" by code_simp
  then show ?thesis by (simp add: newline_def)
qed

lemma digits_before_newline:
  assumes "list_all ascii_digit a"
  shows "takeWhile ascii_digit (a @ newline @ r) = a"
    and "dropWhile ascii_digit (a @ newline @ r) = newline @ r"
proof -
  from assms have all: "\<And>x. x \<in> set a \<Longrightarrow> ascii_digit x" by (simp add: list_all_iff)
  have "dropWhile ascii_digit (newline @ r) = newline @ r"
    using newline_not_digit [of r] by (simp add: takeWhile_eq_Nil_iff dropWhile_eq_self_iff)
  with all show "takeWhile ascii_digit (a @ newline @ r) = a"
    and "dropWhile ascii_digit (a @ newline @ r) = newline @ r"
    using newline_not_digit [of r] by (simp_all add: takeWhile_append2 dropWhile_append2)
qed

lemma count_line_inject:
  assumes "str_nat n @ newline @ r = str_nat m @ newline @ r'"
  shows "n = m \<and> r = r'"
proof -
  have "takeWhile ascii_digit (str_nat n @ newline @ r)
          = takeWhile ascii_digit (str_nat m @ newline @ r')"
    by (simp only: assms)
  then have "str_nat n = str_nat m"
    by (simp only: digits_before_newline(1) [OF str_nat_ascii])
  then have nm: "n = m" by (rule str_nat_inject)
  with assms show ?thesis by simp
qed

lemma counts_read_back:
  assumes "a1 @ a2 @ a3 @ a4 @ a5 @ a6 @ a7 @ a8 @ a9 @ str_nat n @ newline
             @ b1 @ b2 @ str_nat c @ newline @ b3 @ b4 @ str_nat v @ newline @ r
         = a1 @ a2 @ a3 @ a4 @ a5 @ a6 @ a7 @ a8 @ a9 @ str_nat n' @ newline
             @ b1 @ b2 @ str_nat c' @ newline @ b3 @ b4 @ str_nat v' @ newline @ r'"
  shows "n = n' \<and> c = c' \<and> v = v'"
proof -
  from assms have "str_nat n @ newline @ b1 @ b2 @ str_nat c @ newline @ b3 @ b4 @ str_nat v @ newline @ r
         = str_nat n' @ newline @ b1 @ b2 @ str_nat c' @ newline @ b3 @ b4 @ str_nat v' @ newline @ r'"
    by (simp only: same_append_eq)
  from count_line_inject [OF this]
  have n: "n = n'"
    and "b1 @ b2 @ str_nat c @ newline @ b3 @ b4 @ str_nat v @ newline @ r
           = b1 @ b2 @ str_nat c' @ newline @ b3 @ b4 @ str_nat v' @ newline @ r'"
    by blast+
  then have "str_nat c @ newline @ b3 @ b4 @ str_nat v @ newline @ r
           = str_nat c' @ newline @ b3 @ b4 @ str_nat v' @ newline @ r'"
    by (simp only: same_append_eq)
  from count_line_inject [OF this]
  have c: "c = c'"
    and "b3 @ b4 @ str_nat v @ newline @ r = b3 @ b4 @ str_nat v' @ newline @ r'"
    by blast+
  then have "str_nat v @ newline @ r = str_nat v' @ newline @ r'"
    by (simp only: same_append_eq)
  from count_line_inject [OF this] have "v = v'" by blast
  with n c show ?thesis by blast
qed

lemma summary_content_counts:
  assumes "xs \<noteq> []" and "ys \<noteq> []"
    and eq: "summary_content now_text xs = summary_content now_text ys"
  shows "length xs = length ys
     \<and> length (filter (\<lambda>a. severity a = ''Critical'') xs)
         = length (filter (\<lambda>a. severity a = ''Critical'') ys)
     \<and> length (filter (\<lambda>a. severity a = ''Warning'') xs)
         = length (filter (\<lambda>a. severity a = ''Warning'') ys)"
  by (rule counts_read_back
        [OF eq [unfolded summary_content_text [OF assms(1)] summary_content_text [OF assms(2)]
                  str_int_of_nat]])

text \<open>
  C9 (amended). The subject and the content are functions of the alert list and of the
  clock reading \<open>now_text\<close> that the content prints. The subject states the number of
  alerts, and two subjects are equal exactly when the numbers are. For an empty list the
  content is one fixed sentence, without counts. For a non-empty list the content is: the
  header with the clock reading, the total, the number of Critical and the number of
  Warning alerts; one line for each of the first ten Critical alerts and, beyond ten,
  "... and N more critical alerts" with N the number left out; the same for the Warning
  alerts with "... and N more warnings"; and the closing sentence. The content of a
  non-empty list changes with the clock reading; the three counts can be read back from
  it (two non-empty lists with the same content at one clock reading have the same
  counts); and alerts beyond the first ten of a group enter it through the counts only.
\<close>

theorem alert_summary_amended:
  "summary_subject alerts
     = ''Inventory Alert Summary - '' @ str_int (int (length alerts)) @ '' Active Alerts''
   \<and> (summary_subject xs = summary_subject ys) = (length xs = length ys)
   \<and> summary_content now_text [] = ''Good news! There are currently no active inventory alerts.''
   \<and> (alerts \<noteq> [] \<longrightarrow>
        summary_content now_text alerts =
          newline @ indent @ ''Inventory Alert Summary - '' @ now_text @ newline
          @ indent @ newline
          @ indent @ ''Total Active Alerts: '' @ str_int (int (length alerts)) @ newline
          @ indent @ ''- Critical: ''
              @ str_int (int (length (filter (\<lambda>a. severity a = ''Critical'') alerts))) @ newline
          @ indent @ ''- Warnings: ''
              @ str_int (int (length (filter (\<lambda>a. severity a = ''Warning'') alerts))) @ newline
          @ indent @ newline
          @ indent @ ''Critical Alerts:'' @ newline
          @ indent
          @ concat (map (\<lambda>a. ''- '' @ alert_type a @ '': '' @ py_str (item_name a) @ '' (''
                               @ py_str (patient_name a) @ '') - '' @ message a @ newline)
                      (take 10 (filter (\<lambda>a. severity a = ''Critical'') alerts)))
          @ (if 10 < length (filter (\<lambda>a. severity a = ''Critical'') alerts)
             then ''... and ''
                  @ str_int (int (length (filter (\<lambda>a. severity a = ''Critical'') alerts) - 10))
                  @ '' more critical alerts'' @ newline
             else [])
          @ newline @ ''Warning Alerts:'' @ newline
          @ concat (map (\<lambda>a. ''- '' @ alert_type a @ '': '' @ py_str (item_name a) @ '' (''
                               @ py_str (patient_name a) @ '') - '' @ message a @ newline)
                      (take 10 (filter (\<lambda>a. severity a = ''Warning'') alerts)))
          @ (if 10 < length (filter (\<lambda>a. severity a = ''Warning'') alerts)
             then ''... and ''
                  @ str_int (int (length (filter (\<lambda>a. severity a = ''Warning'') alerts) - 10))
                  @ '' more warnings'' @ newline
             else [])
          @ newline @ ''Please review the inventory system for detailed information.'')
   \<and> (alerts \<noteq> [] \<longrightarrow>
        (summary_content now_a alerts = summary_content now_b alerts) = (now_a = now_b))
   \<and> (xs \<noteq> [] \<and> ys \<noteq> [] \<and> summary_content now_text xs = summary_content now_text ys
        \<longrightarrow> length xs = length ys
            \<and> length (filter (\<lambda>a. severity a = ''Critical'') xs)
                = length (filter (\<lambda>a. severity a = ''Critical'') ys)
            \<and> length (filter (\<lambda>a. severity a = ''Warning'') xs)
                = length (filter (\<lambda>a. severity a = ''Warning'') ys))
   \<and> (xs \<noteq> [] \<and> ys \<noteq> [] \<and> length xs = length ys
        \<and> length (filter (\<lambda>a. severity a = ''Critical'') xs)
            = length (filter (\<lambda>a. severity a = ''Critical'') ys)
        \<and> length (filter (\<lambda>a. severity a = ''Warning'') xs)
            = length (filter (\<lambda>a. severity a = ''Warning'') ys)
        \<and> take 10 (filter (\<lambda>a. severity a = ''Critical'') xs)
            = take 10 (filter (\<lambda>a. severity a = ''Critical'') ys)
        \<and> take 10 (filter (\<lambda>a. severity a = ''Warning'') xs)
            = take 10 (filter (\<lambda>a. severity a = ''Warning'') ys)
        \<longrightarrow> summary_content now_text xs = summary_content now_text ys)"
proof (intro conjI impI)
  show "summary_subject alerts
     = ''Inventory Alert Summary - '' @ str_int (int (length alerts)) @ '' Active Alerts''"
    by (simp only: summary_subject_def)
next
  show "(summary_subject xs = summary_subject ys) = (length xs = length ys)"
    by (rule summary_subject_count)
next
  show "summary_content now_text [] = ''Good news! There are currently no active inventory alerts.''"
    by (simp only: summary_content_def simp_thms if_True)
next
  assume "alerts \<noteq> []"
  then show "summary_content now_text alerts =
          newline @ indent @ ''Inventory Alert Summary - '' @ now_text @ newline
          @ indent @ newline
          @ indent @ ''Total Active Alerts: '' @ str_int (int (length alerts)) @ newline
          @ indent @ ''- Critical: ''
              @ str_int (int (length (filter (\<lambda>a. severity a = ''Critical'') alerts))) @ newline
          @ indent @ ''- Warnings: ''
              @ str_int (int (length (filter (\<lambda>a. severity a = ''Warning'') alerts))) @ newline
          @ indent @ newline
          @ indent @ ''Critical Alerts:'' @ newline
          @ indent
          @ concat (map (\<lambda>a. ''- '' @ alert_type a @ '': '' @ py_str (item_name a) @ '' (''
                               @ py_str (patient_name a) @ '') - '' @ message a @ newline)
                      (take 10 (filter (\<lambda>a. severity a = ''Critical'') alerts)))
          @ (if 10 < length (filter (\<lambda>a. severity a = ''Critical'') alerts)
             then ''... and ''
                  @ str_int (int (length (filter (\<lambda>a. severity a = ''Critical'') alerts) - 10))
                  @ '' more critical alerts'' @ newline
             else [])
          @ newline @ ''Warning Alerts:'' @ newline
          @ concat (map (\<lambda>a. ''- '' @ alert_type a @ '': '' @ py_str (item_name a) @ '' (''
                               @ py_str (patient_name a) @ '') - '' @ message a @ newline)
                      (take 10 (filter (\<lambda>a. severity a = ''Warning'') alerts)))
          @ (if 10 < length (filter (\<lambda>a. severity a = ''Warning'') alerts)
             then ''... and ''
                  @ str_int (int (length (filter (\<lambda>a. severity a = ''Warning'') alerts) - 10))
                  @ '' more warnings'' @ newline
             else [])
          @ newline @ ''Please review the inventory system for detailed information.''"
    by (rule summary_content_text)
next
  assume "alerts \<noteq> []"
  then show "(summary_content now_a alerts = summary_content now_b alerts) = (now_a = now_b)"
    by (rule summary_content_time)
next
  assume "xs \<noteq> [] \<and> ys \<noteq> [] \<and> summary_content now_text xs = summary_content now_text ys"
  then have counts: "length xs = length ys
            \<and> length (filter (\<lambda>a. severity a = ''Critical'') xs)
                = length (filter (\<lambda>a. severity a = ''Critical'') ys)
            \<and> length (filter (\<lambda>a. severity a = ''Warning'') xs)
                = length (filter (\<lambda>a. severity a = ''Warning'') ys)"
    by (intro summary_content_counts [of xs ys now_text]) simp_all
  from counts show "length xs = length ys" by (rule conjunct1)
  from counts show "length (filter (\<lambda>a. severity a = ''Critical'') xs)
                = length (filter (\<lambda>a. severity a = ''Critical'') ys)"
    by blast
  from counts show "length (filter (\<lambda>a. severity a = ''Warning'') xs)
                = length (filter (\<lambda>a. severity a = ''Warning'') ys)"
    by blast
next
  assume "xs \<noteq> [] \<and> ys \<noteq> [] \<and> length xs = length ys
        \<and> length (filter (\<lambda>a. severity a = ''Critical'') xs)
            = length (filter (\<lambda>a. severity a = ''Critical'') ys)
        \<and> length (filter (\<lambda>a. severity a = ''Warning'') xs)
            = length (filter (\<lambda>a. severity a = ''Warning'') ys)
        \<and> take 10 (filter (\<lambda>a. severity a = ''Critical'') xs)
            = take 10 (filter (\<lambda>a. severity a = ''Critical'') ys)
        \<and> take 10 (filter (\<lambda>a. severity a = ''Warning'') xs)
            = take 10 (filter (\<lambda>a. severity a = ''Warning'') ys)"
  then show "summary_content now_text xs = summary_content now_text ys"
    by (intro summary_content_first_ten) simp_all
qed

lemma summary_example_hypotheses:
  "alerts_example \<noteq> [] \<and> alerts_example_other \<noteq> []
   \<and> length alerts_example_other = length alerts_example
   \<and> length (filter (\<lambda>a. severity a = ''Critical'') alerts_example_other)
       = length (filter (\<lambda>a. severity a = ''Critical'') alerts_example)
   \<and> length (filter (\<lambda>a. severity a = ''Warning'') alerts_example_other)
       = length (filter (\<lambda>a. severity a = ''Warning'') alerts_example)
   \<and> take 10 (filter (\<lambda>a. severity a = ''Critical'') alerts_example_other)
       = take 10 (filter (\<lambda>a. severity a = ''Critical'') alerts_example)
   \<and> take 10 (filter (\<lambda>a. severity a = ''Warning'') alerts_example_other)
       = take 10 (filter (\<lambda>a. severity a = ''Warning'') alerts_example)"
  by code_simp

lemma summary_examples_differ: "alerts_example_other \<noteq> alerts_example"
  by code_simp

lemma summary_example_text:
  "newline @ indent @ ''Inventory Alert Summary - '' @ ''2024-06-01 09:00:00'' @ newline
          @ indent @ newline
          @ indent @ ''Total Active Alerts: '' @ str_int (int (length alerts_example)) @ newline
          @ indent @ ''- Critical: ''
              @ str_int (int (length (filter (\<lambda>a. severity a = ''Critical'') alerts_example))) @ newline
          @ indent @ ''- Warnings: ''
              @ str_int (int (length (filter (\<lambda>a. severity a = ''Warning'') alerts_example))) @ newline
          @ indent @ newline
          @ indent @ ''Critical Alerts:'' @ newline
          @ indent
          @ concat (map (\<lambda>a. ''- '' @ alert_type a @ '': '' @ py_str (item_name a) @ '' (''
                               @ py_str (patient_name a) @ '') - '' @ message a @ newline)
                      (take 10 (filter (\<lambda>a. severity a = ''Critical'') alerts_example)))
          @ (if 10 < length (filter (\<lambda>a. severity a = ''Critical'') alerts_example)
             then ''... and ''
                  @ str_int (int (length (filter (\<lambda>a. severity a = ''Critical'') alerts_example) - 10))
                  @ '' more critical alerts'' @ newline
             else [])
          @ newline @ ''Warning Alerts:'' @ newline
          @ concat (map (\<lambda>a. ''- '' @ alert_type a @ '': '' @ py_str (item_name a) @ '' (''
                               @ py_str (patient_name a) @ '') - '' @ message a @ newline)
                      (take 10 (filter (\<lambda>a. severity a = ''Warning'') alerts_example)))
          @ (if 10 < length (filter (\<lambda>a. severity a = ''Warning'') alerts_example)
             then ''... and ''
                  @ str_int (int (length (filter (\<lambda>a. severity a = ''Warning'') alerts_example) - 10))
                  @ '' more warnings'' @ newline
             else [])
          @ newline @ ''Please review the inventory system for detailed information.''
   = ''\<newline>            Inventory Alert Summary - 2024-06-01 09:00:00\<newline>''
     @ ''            \<newline>''
     @ ''            Total Active Alerts: 12\<newline>''
     @ ''            - Critical: 11\<newline>''
     @ ''            - Warnings: 1\<newline>''
     @ ''            \<newline>''
     @ ''            Critical Alerts:\<newline>''
     @ ''            - Expiring Soon: DrugB (Bo Chen) - Expires in 4 days\<newline>''
     @ concat (replicate 9 ''- Expiring Soon: DrugB (Bo Chen) - Expires in 4 days\<newline>'')
     @ ''... and 1 more critical alerts\<newline>''
     @ ''\<newline>''
     @ ''Warning Alerts:\<newline>''
     @ ''- Expiring Soon: DrugC (Cy Dunn) - Expires in 19 days\<newline>''
     @ ''\<newline>''
     @ ''Please review the inventory system for detailed information.''"
  by code_simp

text \<open>
  Witness for C9: eleven Critical alerts and one Warning alert (\<open>alerts_example\<close>),
  rendered at 2024-06-01 09:00:00. The content is the text below: the counts 12, 11 and 1,
  ten Critical lines, "... and 1 more critical alerts", one Warning line. Five seconds
  later the content differs. A second list whose eleventh Critical alert is another one
  (\<open>alerts_example_other\<close>) gives the same content, and has the same number of alerts.
\<close>

theorem alert_summary_amended_witness:
  "alerts_example \<noteq> []
   \<and> summary_subject alerts_example = ''Inventory Alert Summary - 12 Active Alerts''
   \<and> summary_content ''2024-06-01 09:00:00'' alerts_example
     = ''\<newline>            Inventory Alert Summary - 2024-06-01 09:00:00\<newline>''
     @ ''            \<newline>''
     @ ''            Total Active Alerts: 12\<newline>''
     @ ''            - Critical: 11\<newline>''
     @ ''            - Warnings: 1\<newline>''
     @ ''            \<newline>''
     @ ''            Critical Alerts:\<newline>''
     @ ''            - Expiring Soon: DrugB (Bo Chen) - Expires in 4 days\<newline>''
     @ concat (replicate 9 ''- Expiring Soon: DrugB (Bo Chen) - Expires in 4 days\<newline>'')
     @ ''... and 1 more critical alerts\<newline>''
     @ ''\<newline>''
     @ ''Warning Alerts:\<newline>''
     @ ''- Expiring Soon: DrugC (Cy Dunn) - Expires in 19 days\<newline>''
     @ ''\<newline>''
     @ ''Please review the inventory system for detailed information.''
   \<and> summary_content ''2024-06-01 09:00:00'' alerts_example
       \<noteq> summary_content ''2024-06-01 09:00:05'' alerts_example
   \<and> alerts_example_other \<noteq> [] \<and> alerts_example_other \<noteq> alerts_example
   \<and> summary_content ''2024-06-01 09:00:00'' alerts_example_other
       = summary_content ''2024-06-01 09:00:00'' alerts_example
   \<and> length alerts_example_other = length alerts_example"
proof -
  note inst = alert_summary_amended [where alerts = alerts_example
      and now_text = "''2024-06-01 09:00:00''" and xs = alerts_example_other
      and ys = alerts_example and now_a = "''2024-06-01 09:00:00''"
      and now_b = "''2024-06-01 09:00:05''"]
  have ne: "alerts_example \<noteq> []" using summary_example_hypotheses by (rule conjunct1)
  have subj: "summary_subject alerts_example = ''Inventory Alert Summary - 12 Active Alerts''"
    by code_simp
  from inst ne have "summary_content ''2024-06-01 09:00:00'' alerts_example = 
          newline @ indent @ ''Inventory Alert Summary - '' @ ''2024-06-01 09:00:00'' @ newline
          @ indent @ newline
          @ indent @ ''Total Active Alerts: '' @ str_int (int (length alerts_example)) @ newline
          @ indent @ ''- Critical: ''
              @ str_int (int (length (filter (\<lambda>a. severity a = ''Critical'') alerts_example))) @ newline
          @ indent @ ''- Warnings: ''
              @ str_int (int (length (filter (\<lambda>a. severity a = ''Warning'') alerts_example))) @ newline
          @ indent @ newline
          @ indent @ ''Critical Alerts:'' @ newline
          @ indent
          @ concat (map (\<lambda>a. ''- '' @ alert_type a @ '': '' @ py_str (item_name a) @ '' (''
                               @ py_str (patient_name a) @ '') - '' @ message a @ newline)
                      (take 10 (filter (\<lambda>a. severity a = ''Critical'') alerts_example)))
          @ (if 10 < length (filter (\<lambda>a. severity a = ''Critical'') alerts_example)
             then ''... and ''
                  @ str_int (int (length (filter (\<lambda>a. severity a = ''Critical'') alerts_example) - 10))
                  @ '' more critical alerts'' @ newline
             else [])
          @ newline @ ''Warning Alerts:'' @ newline
          @ concat (map (\<lambda>a. ''- '' @ alert_type a @ '': '' @ py_str (item_name a) @ '' (''
                               @ py_str (patient_name a) @ '') - '' @ message a @ newline)
                      (take 10 (filter (\<lambda>a. severity a = ''Warning'') alerts_example)))
          @ (if 10 < length (filter (\<lambda>a. severity a = ''Warning'') alerts_example)
             then ''... and ''
                  @ str_int (int (length (filter (\<lambda>a. severity a = ''Warning'') alerts_example) - 10))
                  @ '' more warnings'' @ newline
             else [])
          @ newline @ ''Please review the inventory system for detailed information.''"
    by blast
  then have body: "summary_content ''2024-06-01 09:00:00'' alerts_example
     = ''\<newline>            Inventory Alert Summary - 2024-06-01 09:00:00\<newline>''
     @ ''            \<newline>''
     @ ''            Total Active Alerts: 12\<newline>''
     @ ''            - Critical: 11\<newline>''
     @ ''            - Warnings: 1\<newline>''
     @ ''            \<newline>''
     @ ''            Critical Alerts:\<newline>''
     @ ''            - Expiring Soon: DrugB (Bo Chen) - Expires in 4 days\<newline>''
     @ concat (replicate 9 ''- Expiring Soon: DrugB (Bo Chen) - Expires in 4 days\<newline>'')
     @ ''... and 1 more critical alerts\<newline>''
     @ ''\<newline>''
     @ ''Warning Alerts:\<newline>''
     @ ''- Expiring Soon: DrugC (Cy Dunn) - Expires in 19 days\<newline>''
     @ ''\<newline>''
     @ ''Please review the inventory system for detailed information.''"
    by (rule trans) (rule summary_example_text)
  have times: "''2024-06-01 09:00:00'' \<noteq> ''2024-06-01 09:00:05''" by code_simp
  from inst ne have "(summary_content ''2024-06-01 09:00:00'' alerts_example
       = summary_content ''2024-06-01 09:00:05'' alerts_example)
       = (''2024-06-01 09:00:00'' = ''2024-06-01 09:00:05'')"
    by blast
  with times have differ: "summary_content ''2024-06-01 09:00:00'' alerts_example
       \<noteq> summary_content ''2024-06-01 09:00:05'' alerts_example"
    by (simp only: simp_thms)
  from inst summary_example_hypotheses have same: "summary_content ''2024-06-01 09:00:00'' alerts_example_other
       = summary_content ''2024-06-01 09:00:00'' alerts_example"
    by blast
  have ne': "alerts_example_other \<noteq> []" using summary_example_hypotheses by blast
  from inst ne ne' same have counts: "length alerts_example_other = length alerts_example"
    by blast
  from ne subj body differ ne' summary_examples_differ same counts show ?thesis
    by (intro conjI)
qed

text \<open>
  Counterexample for C9 as stated: the same alert list rendered at two clock readings
  gives two contents, so the content is not a function of the alerts alone; and the
  content for the empty list states no counts.
\<close>

theorem alert_summary_counterexample:
  "summary_content ''2024-06-01 09:00:00'' [stock_alert (''DrugA'', Some ''Loc X'', 1)]
     \<noteq> summary_content ''2024-06-01 09:00:05'' [stock_alert (''DrugA'', Some ''Loc X'', 1)]
   \<and> summary_content ''2024-06-01 09:00:00'' []
     = ''Good news! There are currently no active inventory alerts.''"
  by code_simp

end
